theory Spec2Isabelle
  imports Complex_Main "HOL-Library.AList"
begin

section \<open>JavaScript values\<close>

text \<open>
  The repository is JavaScript: entities are plain objects whose shape the store checks at
  run time, so the model keeps them dynamically typed. A number is a double: a real, which
  every arithmetic operation rounds to the nearest double, or one of the three special
  values of the language. The sign of zero is not represented. An object is a plain object
  with its own data properties and the prototype \<open>Object.prototype\<close>; \<open>JWrap\<close> is the
  wrapper object that \<open>Object(v)\<close> builds around a primitive. Functions, symbols and
  big integers are no values of the model.
\<close>

datatype jsnum = Fin real | NaN | PosInf | NegInf

datatype jsval =
    JUndefined
  | JNull
  | JBool bool
  | JNum jsnum
  | JStr string
  | JArr "jsval list"
  | JObj "(string \<times> jsval) list"
  | JWrap jsval

text \<open>
  Every \<open>throw\<close> of the source and every exception of the language or of IndexedDB that
  the modelled code can meet is a value. The source throws plain \<open>Error\<close> objects that
  differ in their message; the first three constructors name them after the place that
  throws: \<open>"Database not initialized"\<close>, the messages of \<open>validateEntity\<close>, and the
  message of \<open>validateOriginID\<close>.
\<close>

datatype error =
    NotInitialized
  | ValidationError string
  | ConsistencyError string
  | TypeError
  | ReferenceError string
  | DataError
  | NotFoundError

text \<open>Sequencing of steps that may throw: the first exception ends the computation.\<close>

definition bind_err :: "error + 'a \<Rightarrow> ('a \<Rightarrow> error + 'b) \<Rightarrow> error + 'b" where
  "bind_err m f = (case m of Inl e \<Rightarrow> Inl e | Inr x \<Rightarrow> f x)"

subsection \<open>Rounding to a double\<close>

text \<open>
  The nearest integer, a tie going to the even one; and the binary exponent of a positive
  real \<open>x\<close>, the integer \<open>e\<close> with \<open>2^e \<le> x < 2^(e+1)\<close>.
\<close>

definition round_half_even :: "real \<Rightarrow> int" where
  "round_half_even y =
     (let f = \<lfloor>y\<rfloor>; r = y - of_int f
      in if r < 1 / 2 then f else if 1 / 2 < r then f + 1 else if even f then f else f + 1)"

function binary_exponent :: "real \<Rightarrow> int" where
  "binary_exponent x =
     (if x \<le> 0 then 0
      else if 2 \<le> x then binary_exponent (x / 2) + 1
      else if x < 1 then binary_exponent (2 * x) - 1
      else 0)"
  by pat_completeness auto

termination
proof (relation "measure (\<lambda>x. nat \<bar>\<lfloor>log 2 x\<rfloor>\<bar>)")
  show "wf (measure (\<lambda>x. nat \<bar>\<lfloor>log 2 x\<rfloor>\<bar>))" by simp
next
  fix x :: real
  assume "\<not> x \<le> 0" "2 \<le> x"
  then have "log 2 (x / 2) = log 2 x - 1" by (simp add: log_divide)
  moreover have "1 \<le> log 2 x" using \<open>2 \<le> x\<close> by (simp add: le_log_iff)
  ultimately have "\<lfloor>log 2 (x / 2)\<rfloor> = \<lfloor>log 2 x\<rfloor> - 1" "1 \<le> \<lfloor>log 2 x\<rfloor>"
    by (simp_all add: le_floor_iff)
  then show "(x / 2, x) \<in> measure (\<lambda>x. nat \<bar>\<lfloor>log 2 x\<rfloor>\<bar>)" by simp
next
  fix x :: real
  assume "\<not> x \<le> 0" "\<not> 2 \<le> x" "x < 1"
  then have "log 2 (2 * x) = log 2 x + 1" by (simp add: log_mult)
  moreover have "log 2 x < 0" using \<open>\<not> x \<le> 0\<close> \<open>x < 1\<close> by simp
  ultimately have "\<lfloor>log 2 (2 * x)\<rfloor> = \<lfloor>log 2 x\<rfloor> + 1" "\<lfloor>log 2 x\<rfloor> < 0"
    by (simp_all add: floor_less_iff)
  then have "\<bar>\<lfloor>log 2 (2 * x)\<rfloor>\<bar> < \<bar>\<lfloor>log 2 x\<rfloor>\<bar>" by linarith
  then show "(2 * x, x) \<in> measure (\<lambda>x. nat \<bar>\<lfloor>log 2 x\<rfloor>\<bar>)" by simp
qed

declare binary_exponent.simps [simp del]

text \<open>The infinity of a sign; no sign gives \<open>NaN\<close>.\<close>

definition inf_of_sign :: "real \<Rightarrow> jsnum" where
  "inf_of_sign s = (if s = 0 then NaN else if 0 < s then PosInf else NegInf)"

text \<open>
  The double nearest to a real, ties to the even significand: 53 bits of significand, the
  least exponent \<open>-1022\<close> (below it the doubles are evenly spaced), and the infinity of the
  sign when the rounded magnitude reaches \<open>2^1024\<close>. A numeric literal of the source denotes
  the double nearest to its decimal value, so \<open>0.1\<close> is \<open>round_double (1 / 10)\<close>.
\<close>

definition round_double :: "real \<Rightarrow> jsnum" where
  "round_double x =
     (let e = max (binary_exponent \<bar>x\<bar>) (- 1022);
          m = round_half_even (\<bar>x\<bar> * power_int 2 (52 - e));
          y = of_int m * power_int 2 (e - 52)
      in if 2 ^ 1024 \<le> y then inf_of_sign x else Fin (sgn x * y))"

subsection \<open>Arithmetic and comparison of numbers\<close>

fun num_neg :: "jsnum \<Rightarrow> jsnum" where
  "num_neg (Fin r) = Fin (- r)"
| "num_neg NaN = NaN"
| "num_neg PosInf = NegInf"
| "num_neg NegInf = PosInf"

fun num_add :: "jsnum \<Rightarrow> jsnum \<Rightarrow> jsnum" where
  "num_add NaN _ = NaN"
| "num_add _ NaN = NaN"
| "num_add (Fin a) (Fin b) = round_double (a + b)"
| "num_add PosInf NegInf = NaN"
| "num_add NegInf PosInf = NaN"
| "num_add PosInf _ = PosInf"
| "num_add _ PosInf = PosInf"
| "num_add NegInf _ = NegInf"
| "num_add _ NegInf = NegInf"

definition num_sub :: "jsnum \<Rightarrow> jsnum \<Rightarrow> jsnum" where
  "num_sub a b = num_add a (num_neg b)"

text \<open>The sign of a number that is not \<open>NaN\<close>: \<open>-1\<close>, \<open>0\<close> or \<open>1\<close>.\<close>

fun num_sgn :: "jsnum \<Rightarrow> real" where
  "num_sgn (Fin r) = sgn r"
| "num_sgn PosInf = 1"
| "num_sgn NegInf = - 1"
| "num_sgn NaN = 0"

fun num_mul :: "jsnum \<Rightarrow> jsnum \<Rightarrow> jsnum" where
  "num_mul NaN _ = NaN"
| "num_mul _ NaN = NaN"
| "num_mul (Fin a) (Fin b) = round_double (a * b)"
| "num_mul a b = inf_of_sign (num_sgn a * num_sgn b)"

text \<open>
  Division: a zero divisor is the positive zero (the model has no negative zero), so a
  non-zero dividend gives the infinity of its own sign.
\<close>

fun num_div :: "jsnum \<Rightarrow> jsnum \<Rightarrow> jsnum" where
  "num_div NaN _ = NaN"
| "num_div _ NaN = NaN"
| "num_div (Fin a) (Fin b) = (if b = 0 then inf_of_sign (sgn a) else round_double (a / b))"
| "num_div (Fin a) _ = Fin 0"
| "num_div a (Fin b) = inf_of_sign (num_sgn a * (if b < 0 then - 1 else 1))"
| "num_div _ _ = NaN"

fun num_le :: "jsnum \<Rightarrow> jsnum \<Rightarrow> bool" where
  "num_le NaN _ = False"
| "num_le _ NaN = False"
| "num_le (Fin a) (Fin b) = (a \<le> b)"
| "num_le NegInf _ = True"
| "num_le _ PosInf = True"
| "num_le _ _ = False"

fun num_lt :: "jsnum \<Rightarrow> jsnum \<Rightarrow> bool" where
  "num_lt NaN _ = False"
| "num_lt _ NaN = False"
| "num_lt (Fin a) (Fin b) = (a < b)"
| "num_lt PosInf _ = False"
| "num_lt _ NegInf = False"
| "num_lt _ _ = True"

text \<open>
  \<open>Math.min\<close>, \<open>Math.max\<close>, \<open>Math.abs\<close>, \<open>Math.floor\<close> and \<open>Math.ceil\<close> on numbers; their
  results are exact.
\<close>

definition num_min :: "jsnum \<Rightarrow> jsnum \<Rightarrow> jsnum" where
  "num_min a b = (if a = NaN \<or> b = NaN then NaN else if num_le a b then a else b)"

definition num_max :: "jsnum \<Rightarrow> jsnum \<Rightarrow> jsnum" where
  "num_max a b = (if a = NaN \<or> b = NaN then NaN else if num_le a b then b else a)"

fun num_abs :: "jsnum \<Rightarrow> jsnum" where
  "num_abs (Fin r) = Fin \<bar>r\<bar>"
| "num_abs NaN = NaN"
| "num_abs PosInf = PosInf"
| "num_abs NegInf = PosInf"

fun num_floor :: "jsnum \<Rightarrow> jsnum" where
  "num_floor (Fin r) = Fin (of_int \<lfloor>r\<rfloor>)"
| "num_floor n = n"

fun num_ceil :: "jsnum \<Rightarrow> jsnum" where
  "num_ceil (Fin r) = Fin (of_int \<lceil>r\<rceil>)"
| "num_ceil n = n"

text \<open>\<open>Math.sqrt\<close>: the double nearest to the root, \<open>NaN\<close> below zero.\<close>

fun num_sqrt :: "jsnum \<Rightarrow> jsnum" where
  "num_sqrt (Fin r) = (if r < 0 then NaN else round_double (sqrt r))"
| "num_sqrt NegInf = NaN"
| "num_sqrt n = n"

subsection \<open>Printing integers\<close>

definition digit_char :: "nat \<Rightarrow> char" where
  "digit_char d = ''0123456789'' ! d"

fun show_nat :: "nat \<Rightarrow> string" where
  "show_nat n = (if n < 10 then [digit_char n] else show_nat (n div 10) @ [digit_char (n mod 10)])"

declare show_nat.simps [simp del]

definition show_int :: "int \<Rightarrow> string" where
  "show_int i = (if i < 0 then CHR ''-'' # show_nat (nat (- i)) else show_nat (nat i))"

subsection \<open>Conversions\<close>

text \<open>
  Three functions of the language are not part of the repository and are taken from the
  engine that runs it: \<open>fmt_number\<close> is \<open>Number::toString\<close> where the model does not print
  the number itself (a value that is not an integer, or an integer beyond \<open>2^53\<close>, where the
  language prints the shortest digits that identify the double); \<open>parse_number\<close> is
  \<open>StringToNumber\<close>; and \<open>approx_power\<close> is the approximation \<open>Math.pow\<close> returns for a
  finite non-zero base and a finite non-zero exponent, which the language leaves to the
  engine.
\<close>

record runtime =
  fmt_number :: "real \<Rightarrow> string"
  parse_number :: "string \<Rightarrow> jsnum"
  approx_power :: "real \<Rightarrow> real \<Rightarrow> jsnum"

definition number_to_string :: "runtime \<Rightarrow> jsnum \<Rightarrow> string" where
  "number_to_string rt n =
     (case n of
        NaN \<Rightarrow> ''NaN''
      | PosInf \<Rightarrow> ''Infinity''
      | NegInf \<Rightarrow> ''-Infinity''
      | Fin r \<Rightarrow>
          if of_int \<lfloor>r\<rfloor> = r \<and> \<bar>r\<bar> \<le> 2 ^ 53 then show_int \<lfloor>r\<rfloor> else fmt_number rt r)"

text \<open>\<open>Math.pow(base, 2)\<close>: the cases the language fixes, and the engine for the others.\<close>

definition pow_2 :: "runtime \<Rightarrow> jsnum \<Rightarrow> jsnum" where
  "pow_2 rt base =
     (case base of
        NaN \<Rightarrow> NaN
      | PosInf \<Rightarrow> PosInf
      | NegInf \<Rightarrow> PosInf
      | Fin r \<Rightarrow> if r = 0 then Fin 0 else approx_power rt r 2)"

fun join_with :: "string \<Rightarrow> string list \<Rightarrow> string" where
  "join_with sep [] = []"
| "join_with sep [s] = s"
| "join_with sep (s # t # ss) = s @ sep @ join_with sep (t # ss)"

text \<open>The primitive values, and \<open>ToString\<close> and \<open>ToNumber\<close> on them.\<close>

datatype prim = PUndefined | PNull | PBool bool | PNum jsnum | PStr string

fun prim_to_string :: "runtime \<Rightarrow> prim \<Rightarrow> string" where
  "prim_to_string rt PUndefined = ''undefined''"
| "prim_to_string rt PNull = ''null''"
| "prim_to_string rt (PBool b) = (if b then ''true'' else ''false'')"
| "prim_to_string rt (PNum n) = number_to_string rt n"
| "prim_to_string rt (PStr s) = s"

fun prim_to_number :: "runtime \<Rightarrow> prim \<Rightarrow> jsnum" where
  "prim_to_number rt PUndefined = NaN"
| "prim_to_number rt PNull = Fin 0"
| "prim_to_number rt (PBool b) = Fin (if b then 1 else 0)"
| "prim_to_number rt (PNum n) = n"
| "prim_to_number rt (PStr s) = parse_number rt s"

text \<open>
  \<open>ToPrimitive\<close>. An array becomes the string \<open>join\<close> builds: its elements as strings,
  separated by commas, \<open>undefined\<close> and \<open>null\<close> elements as the empty string. A plain
  object answers with \<open>Object.prototype.toString\<close>, that is \<open>[object Object]\<close>, unless it
  has a property \<open>toString\<close> of its own: no value of the model can be called, the
  \<open>valueOf\<close> that is tried next is either such a property too or the inherited one, which
  returns the object itself, and the conversion throws a \<open>TypeError\<close>. A wrapper gives the
  primitive it wraps. The hint makes no difference on these values.
\<close>

fun to_primitive :: "runtime \<Rightarrow> jsval \<Rightarrow> error + prim"
  and element_strings :: "runtime \<Rightarrow> jsval list \<Rightarrow> error + string list" where
  "to_primitive rt JUndefined = Inr PUndefined"
| "to_primitive rt JNull = Inr PNull"
| "to_primitive rt (JBool b) = Inr (PBool b)"
| "to_primitive rt (JNum n) = Inr (PNum n)"
| "to_primitive rt (JStr s) = Inr (PStr s)"
| "to_primitive rt (JArr xs) =
     (case element_strings rt xs of
        Inl e \<Rightarrow> Inl e
      | Inr ss \<Rightarrow> Inr (PStr (join_with '','' ss)))"
| "to_primitive rt (JObj ps) =
     (if map_of ps ''toString'' = None then Inr (PStr ''[object Object]'') else Inl TypeError)"
| "to_primitive rt (JWrap v) = to_primitive rt v"
| "element_strings rt [] = Inr []"
| "element_strings rt (x # xs) =
     (case (if x = JUndefined \<or> x = JNull then Inr (PStr [])
            else to_primitive rt x) of
        Inl e \<Rightarrow> Inl e
      | Inr p \<Rightarrow>
          (case element_strings rt xs of
             Inl e \<Rightarrow> Inl e
           | Inr ss \<Rightarrow> Inr (prim_to_string rt p # ss)))"

text \<open>\<open>ToString\<close> and \<open>ToNumber\<close>.\<close>

definition to_string :: "runtime \<Rightarrow> jsval \<Rightarrow> error + string" where
  "to_string rt v = bind_err (to_primitive rt v) (\<lambda>p. Inr (prim_to_string rt p))"

definition to_number :: "runtime \<Rightarrow> jsval \<Rightarrow> error + jsnum" where
  "to_number rt v = bind_err (to_primitive rt v) (\<lambda>p. Inr (prim_to_number rt p))"

text \<open>\<open>ToBoolean\<close>: the falsy values are \<open>undefined\<close>, \<open>null\<close>, \<open>false\<close>, \<open>0\<close>, \<open>NaN\<close> and \<open>""\<close>.\<close>

fun truthy :: "jsval \<Rightarrow> bool" where
  "truthy JUndefined = False"
| "truthy JNull = False"
| "truthy (JBool b) = b"
| "truthy (JNum n) = (n \<noteq> Fin 0 \<and> n \<noteq> NaN)"
| "truthy (JStr s) = (s \<noteq> [])"
| "truthy _ = True"

text \<open>\<open>a || b\<close> on values.\<close>

definition js_or :: "jsval \<Rightarrow> jsval \<Rightarrow> jsval" where
  "js_or a b = (if truthy a then a else b)"

text \<open>
  \<open>a + b\<close>: both operands become primitives, the left one first; when either is a string
  the strings are concatenated, otherwise the numbers are added. \<open>a * b\<close> and \<open>a - b\<close>
  convert the left operand to a number, then the right one.
\<close>

definition is_str :: "prim \<Rightarrow> bool" where
  "is_str p = (case p of PStr s \<Rightarrow> True | _ \<Rightarrow> False)"

definition js_add :: "runtime \<Rightarrow> jsval \<Rightarrow> jsval \<Rightarrow> error + jsval" where
  "js_add rt a b =
     bind_err (to_primitive rt a) (\<lambda>pa.
     bind_err (to_primitive rt b) (\<lambda>pb.
       Inr (if is_str pa \<or> is_str pb then JStr (prim_to_string rt pa @ prim_to_string rt pb)
            else JNum (num_add (prim_to_number rt pa) (prim_to_number rt pb)))))"

definition js_mul :: "runtime \<Rightarrow> jsval \<Rightarrow> jsval \<Rightarrow> error + jsval" where
  "js_mul rt a b =
     bind_err (to_number rt a) (\<lambda>x.
     bind_err (to_number rt b) (\<lambda>y. Inr (JNum (num_mul x y))))"

definition js_sub :: "runtime \<Rightarrow> jsval \<Rightarrow> jsval \<Rightarrow> error + jsval" where
  "js_sub rt a b =
     bind_err (to_number rt a) (\<lambda>x.
     bind_err (to_number rt b) (\<lambda>y. Inr (JNum (num_sub x y))))"

subsection \<open>Property access\<close>

text \<open>
  \<open>v.name\<close> for the property names the repository reads (none of them is a property of
  a prototype): reading from \<open>undefined\<close> or \<open>null\<close> throws a \<open>TypeError\<close>, an object
  answers with its own property, everything else with \<open>undefined\<close>.
\<close>

fun get_prop :: "jsval \<Rightarrow> string \<Rightarrow> error + jsval" where
  "get_prop JUndefined name = Inl TypeError"
| "get_prop JNull name = Inl TypeError"
| "get_prop (JObj ps) name = Inr (case map_of ps name of None \<Rightarrow> JUndefined | Some v \<Rightarrow> v)"
| "get_prop _ name = Inr JUndefined"

text \<open>
  \<open>v[i]\<close> for an index: an array answers with its element, a string (or its wrapper) with
  the one-character string, an object with its property of that name; out of range is
  \<open>undefined\<close>.
\<close>

fun get_index :: "jsval \<Rightarrow> nat \<Rightarrow> error + jsval" where
  "get_index JUndefined i = Inl TypeError"
| "get_index JNull i = Inl TypeError"
| "get_index (JArr xs) i = Inr (if i < length xs then xs ! i else JUndefined)"
| "get_index (JStr s) i = Inr (if i < length s then JStr [s ! i] else JUndefined)"
| "get_index (JWrap (JStr s)) i = Inr (if i < length s then JStr [s ! i] else JUndefined)"
| "get_index (JObj ps) i =
     Inr (case map_of ps (show_nat i) of None \<Rightarrow> JUndefined | Some v \<Rightarrow> v)"
| "get_index _ i = Inr JUndefined"

text \<open>\<open>obj.name = v\<close> on an object: an existing property keeps its place, a new one is last.\<close>

definition set_prop :: "(string \<times> jsval) list \<Rightarrow> string \<Rightarrow> jsval \<Rightarrow> jsval" where
  "set_prop ps name v = JObj (AList.update name v ps)"

section \<open>utils.js\<close>

text \<open>
  \<open>weight >= 0 ? weight : -weight\<close>, as the source writes it in three places: the
  comparison converts \<open>weight\<close> to a number, and so does the negation.
\<close>

definition abs_by_sign :: "runtime \<Rightarrow> jsval \<Rightarrow> error + jsval" where
  "abs_by_sign rt weight =
     bind_err (to_number rt weight) (\<lambda>w.
       if num_le (Fin 0) w then Inr weight
       else bind_err (to_number rt weight) (\<lambda>w'. Inr (JNum (num_neg w'))))"

definition calculateProximityPadding :: "runtime \<Rightarrow> jsval \<Rightarrow> error + jsval" where
  "calculateProximityPadding rt weight = abs_by_sign rt weight"

text \<open>
  \<open>BlendCornerByProximity\<close>: the parameter \<open>{ weight, ambient }\<close> is destructured,
  \<open>padding\<close> is computed, and the next expression reads \<open>distanceToSubject\<close>, an
  identifier with no binding in any file of the repository.
\<close>

definition BlendCornerByProximity :: "runtime \<Rightarrow> jsval \<Rightarrow> jsval \<Rightarrow> jsval \<Rightarrow> error + jsval" where
  "BlendCornerByProximity rt color1 color2 params =
     bind_err (get_prop params ''weight'') (\<lambda>weight.
     bind_err (get_prop params ''ambient'') (\<lambda>ambient.
     bind_err (abs_by_sign rt weight) (\<lambda>padding.
       Inl (ReferenceError ''distanceToSubject''))))"

text \<open>\<open>color1[i] * (1 - weight) + color2[i] * weight + ambient[i]\<close>, in the order of evaluation.\<close>

definition weight_channel ::
  "runtime \<Rightarrow> jsval \<Rightarrow> jsval \<Rightarrow> jsval \<Rightarrow> jsval \<Rightarrow> nat \<Rightarrow> error + jsval" where
  "weight_channel rt color1 color2 weight ambient i =
     bind_err (get_index color1 i) (\<lambda>a.
     bind_err (js_sub rt (JNum (Fin 1)) weight) (\<lambda>rest.
     bind_err (js_mul rt a rest) (\<lambda>left.
     bind_err (get_index color2 i) (\<lambda>b.
     bind_err (js_mul rt b weight) (\<lambda>right.
     bind_err (js_add rt left right) (\<lambda>both.
     bind_err (get_index ambient i) (\<lambda>c.
       js_add rt both c)))))))"

definition BlendVrtxByWeight :: "runtime \<Rightarrow> jsval \<Rightarrow> jsval \<Rightarrow> jsval \<Rightarrow> error + jsval" where
  "BlendVrtxByWeight rt color1 color2 params =
     bind_err (get_prop params ''weight'') (\<lambda>weight.
     bind_err (get_prop params ''ambient'') (\<lambda>ambient.
     bind_err (weight_channel rt color1 color2 weight ambient 0) (\<lambda>r.
     bind_err (weight_channel rt color1 color2 weight ambient 1) (\<lambda>g.
     bind_err (weight_channel rt color1 color2 weight ambient 2) (\<lambda>b.
       Inr (JArr [r, g, b]))))))"

text \<open>\<open>Math.min(255, color1[i] + color2[i] + ambient[i])\<close>\<close>

definition background_channel :: "runtime \<Rightarrow> jsval \<Rightarrow> jsval \<Rightarrow> jsval \<Rightarrow> nat \<Rightarrow> error + jsval" where
  "background_channel rt color1 color2 ambient i =
     bind_err (get_index color1 i) (\<lambda>a.
     bind_err (get_index color2 i) (\<lambda>b.
     bind_err (js_add rt a b) (\<lambda>both.
     bind_err (get_index ambient i) (\<lambda>c.
     bind_err (js_add rt both c) (\<lambda>total.
     bind_err (to_number rt total) (\<lambda>n.
       Inr (JNum (num_min (Fin 255) n))))))))"

definition blendBackground :: "runtime \<Rightarrow> jsval \<Rightarrow> jsval \<Rightarrow> jsval \<Rightarrow> error + jsval" where
  "blendBackground rt color1 color2 params =
     bind_err (get_prop params ''ambient'') (\<lambda>ambient.
     bind_err (background_channel rt color1 color2 ambient 0) (\<lambda>r.
     bind_err (background_channel rt color1 color2 ambient 1) (\<lambda>g.
     bind_err (background_channel rt color1 color2 ambient 2) (\<lambda>b.
       Inr (JArr [r, g, b])))))"

text \<open>
  \<open>blendingFunctions\<close> is an object literal: besides its three own properties it answers
  to the properties it inherits from \<open>Object.prototype\<close>.
\<close>

datatype callee =
    OwnBlendCornerByProximity
  | OwnBlendVrtxByWeight
  | OwnBlendBackground
  | Inherited string

definition object_prototype_names :: "string list" where
  "object_prototype_names =
     [''constructor'', ''hasOwnProperty'', ''isPrototypeOf'', ''propertyIsEnumerable'',
      ''toLocaleString'', ''toString'', ''valueOf'', ''__proto__'', ''__defineGetter__'',
      ''__defineSetter__'', ''__lookupGetter__'', ''__lookupSetter__'']"

text \<open>\<open>blendingFunctions[key]\<close>: \<open>None\<close> is \<open>undefined\<close>.\<close>

definition blendingFunctions :: "string \<Rightarrow> callee option" where
  "blendingFunctions name =
     (if name = ''BlendCornerByProximity'' then Some OwnBlendCornerByProximity
      else if name = ''BlendVrtxByWeight'' then Some OwnBlendVrtxByWeight
      else if name = ''blendBackground'' then Some OwnBlendBackground
      else if name \<in> set object_prototype_names then Some (Inherited name)
      else None)"

text \<open>\<open>ToObject\<close>, for \<open>Object(value)\<close>, which gives an empty object for \<open>undefined\<close> and \<open>null\<close>.\<close>

fun object_of :: "jsval \<Rightarrow> jsval" where
  "object_of JUndefined = JObj []"
| "object_of JNull = JObj []"
| "object_of (JArr xs) = JArr xs"
| "object_of (JObj ps) = JObj ps"
| "object_of (JWrap v) = JWrap v"
| "object_of v = JWrap v"

fun is_object :: "jsval \<Rightarrow> bool" where
  "is_object (JArr xs) = True"
| "is_object (JObj ps) = True"
| "is_object (JWrap v) = True"
| "is_object _ = False"

text \<open>
  Calling a member inherited from \<open>Object.prototype\<close> as a plain function, so with
  \<open>this\<close> undefined, on the first argument \<open>arg\<close>: \<open>constructor\<close> is \<open>Object\<close> and
  converts its argument to an object; \<open>toString\<close> names the undefined receiver;
  \<open>isPrototypeOf\<close> answers \<open>false\<close> for a primitive before it reads its receiver;
  \<open>__proto__\<close> is an object and not callable; every other member converts its receiver to
  an object first, which throws.
\<close>

definition call_inherited :: "string \<Rightarrow> jsval \<Rightarrow> error + jsval" where
  "call_inherited name arg =
     (if name = ''constructor'' then Inr (object_of arg)
      else if name = ''toString'' then Inr (JStr ''[object Undefined]'')
      else if name = ''isPrototypeOf'' \<and> \<not> is_object arg then Inr (JBool False)
      else Inl TypeError)"

section \<open>models.js: the model classes\<close>

text \<open>
  The constructors build plain objects. \<open>SubcubeVertex\<close> reads \<open>value[2]\<close>, which throws
  when \<open>value\<close> is \<open>undefined\<close> or \<open>null\<close>, and compares it with zero, which throws when
  it has no primitive value; the object it builds has a \<open>value\<close> field and no \<open>valueArray\<close>
  field.
\<close>

definition CubeVertex :: "jsval \<Rightarrow> jsval \<Rightarrow> jsval \<Rightarrow> jsval \<Rightarrow> jsval \<Rightarrow> jsval" where
  "CubeVertex vertexID windowUID position col blendingLogicId =
     JObj [(''vertexID'', vertexID), (''windowUID'', windowUID),
           (''valueArray'', JArr [position, col]), (''blendingLogicId'', blendingLogicId)]"

definition SubcubeVertex ::
  "runtime \<Rightarrow> jsval \<Rightarrow> jsval \<Rightarrow> jsval \<Rightarrow> jsval \<Rightarrow> jsval \<Rightarrow> jsval \<Rightarrow> jsval \<Rightarrow> error + jsval" where
  "SubcubeVertex rt ident windowUID cubeId subCubeID originID val activeWindowUID =
     bind_err (get_index val 2) (\<lambda>w.
     bind_err (abs_by_sign rt w) (\<lambda>padding.
       Inr (JObj [(''id'', ident), (''windowUID'', windowUID), (''cubeId'', cubeId),
                  (''subCubeID'', subCubeID), (''originID'', originID), (''value'', val),
                  (''activeWindowUID'', activeWindowUID),
                  (''proximityPadding'', padding)])))"

definition Subcube ::
  "jsval \<Rightarrow> jsval \<Rightarrow> jsval \<Rightarrow> jsval \<Rightarrow> jsval \<Rightarrow> jsval \<Rightarrow> jsval \<Rightarrow> jsval \<Rightarrow> jsval" where
  "Subcube ident windowUID center ord vertexArray cubeId originID blendingLogicId =
     JObj [(''id'', ident), (''windowUID'', windowUID), (''center'', center), (''order'', ord),
           (''vertexArray'', vertexArray), (''cubeId'', cubeId), (''originID'', originID),
           (''blendingLogicId'', blendingLogicId)]"

section \<open>storage.js: the entity store\<close>

text \<open>
  The database that \<open>init\<close> opens has nine object stores, each with an in-line key. The
  content of a store is a map from keys to the stored values; \<open>db\<close> is \<open>null\<close> (\<open>None\<close>)
  until \<open>init\<close> has succeeded and after \<open>close\<close>.
\<close>

definition key_path :: "string \<Rightarrow> string option" where
  "key_path storeName =
     map_of [(''Cubes'', ''id''), (''CubeVertices'', ''vertexID''), (''Subcubes'', ''id''),
             (''SubcubeVertices'', ''id''), (''CubeMatrix'', ''id''), (''SubcubeMatrix'', ''id''),
             (''BackgroundMatrix'', ''id''), (''BlendingLogic'', ''logicId''),
             (''ZAxisConfig'', ''id'')] storeName"

type_synonym database = "string \<Rightarrow> jsval \<rightharpoonup> jsval"

record storage =
  dbName :: string
  version :: nat
  db :: "database option"

text \<open>
  IndexedDB accepts as a key a number other than \<open>NaN\<close>, a string, or an array of keys. The
  key of a value is its own property under the key path; a value that is no object, or has
  no such property, or an invalid key there, makes \<open>put\<close> throw a \<open>DataError\<close>.
\<close>

fun valid_key :: "jsval \<Rightarrow> bool" where
  "valid_key (JNum n) = (n \<noteq> NaN)"
| "valid_key (JStr s) = True"
| "valid_key (JArr xs) = list_all valid_key xs"
| "valid_key _ = False"

definition extract_key :: "string \<Rightarrow> jsval \<Rightarrow> error + jsval" where
  "extract_key path v =
     (case v of
        JObj ps \<Rightarrow>
          (case map_of ps path of
             Some k \<Rightarrow> if valid_key k then Inr k else Inl DataError
           | None \<Rightarrow> Inl DataError)
      | _ \<Rightarrow> Inl DataError)"

text \<open>
  \<open>transaction.objectStore(storeName).put(entity)\<close> on the content of the database: the
  exception it may throw, or the content with the value stored under its key.
\<close>

definition put :: "database \<Rightarrow> string \<Rightarrow> jsval \<Rightarrow> error + database" where
  "put d storeName entity =
     (case key_path storeName of
        None \<Rightarrow> Inl NotFoundError
      | Some path \<Rightarrow>
          bind_err (extract_key path entity) (\<lambda>k.
            Inr (d(storeName := (d storeName)(k \<mapsto> entity)))))"

text \<open>The checks of \<open>validateEntity\<close>, one definition for each \<open>case\<close> of its \<open>switch\<close>.\<close>

definition is_array :: "jsval \<Rightarrow> bool" where
  "is_array v = (case v of JArr xs \<Rightarrow> True | _ \<Rightarrow> False)"

definition array_of_length :: "nat \<Rightarrow> jsval \<Rightarrow> bool" where
  "array_of_length n v = (case v of JArr xs \<Rightarrow> length xs = n | _ \<Rightarrow> False)"

text \<open>\<open>c < 0 || c > 255\<close>: each comparison converts \<open>c\<close> to a number.\<close>

definition color_out_of_range :: "runtime \<Rightarrow> jsval \<Rightarrow> error + bool" where
  "color_out_of_range rt c =
     bind_err (to_number rt c) (\<lambda>n.
       if num_lt n (Fin 0) then Inr True
       else bind_err (to_number rt c) (\<lambda>n'. Inr (num_lt (Fin 255) n')))"

text \<open>\<open>xs.some(f)\<close> where the callback may throw: it stops at the first element that holds.\<close>

fun some_err :: "('a \<Rightarrow> error + bool) \<Rightarrow> 'a list \<Rightarrow> error + bool" where
  "some_err f [] = Inr False"
| "some_err f (x # xs) = bind_err (f x) (\<lambda>found. if found then Inr True else some_err f xs)"

text \<open>\<open>!Array.isArray(color) || color.length !== 3 || color.some(c => c < 0 || c > 255)\<close>\<close>

definition color_invalid :: "runtime \<Rightarrow> jsval \<Rightarrow> error + bool" where
  "color_invalid rt c =
     (case c of
        JArr cs \<Rightarrow> if length cs \<noteq> 3 then Inr True else some_err (color_out_of_range rt) cs
      | _ \<Rightarrow> Inr True)"

definition is_number :: "jsval \<Rightarrow> bool" where
  "is_number v = (case v of JNum n \<Rightarrow> n \<noteq> NaN | _ \<Rightarrow> False)"

definition is_string :: "jsval \<Rightarrow> bool" where
  "is_string v = (case v of JStr s \<Rightarrow> True | _ \<Rightarrow> False)"

definition validate_vertex :: "runtime \<Rightarrow> jsval \<Rightarrow> error + jsval" where
  "validate_vertex rt entity =
     bind_err (get_prop entity ''valueArray'') (\<lambda>valueArray.
       case valueArray of
         JArr [col, position, weight, proximity] \<Rightarrow>
           bind_err (color_invalid rt col) (\<lambda>invalid.
             if invalid
               then Inl (ValidationError ''Invalid color range: must be [0-255, 0-255, 0-255]'')
             else if \<not> array_of_length 3 position
               then Inl (ValidationError ''Invalid position format: must be [x, y, z]'')
             else if \<not> is_number weight
               then Inl (ValidationError ''Invalid weight: must be a number'')
             else if \<not> is_string proximity
               then Inl (ValidationError ''Invalid proximity: must be a string'')
             else bind_err (abs_by_sign rt weight) (\<lambda>padding.
                    case entity of
                      JObj ps \<Rightarrow> Inr (set_prop ps ''proximityPadding'' padding)
                    | _ \<Rightarrow> Inl TypeError))
       | _ \<Rightarrow>
           Inl (ValidationError
                  ''Invalid valueArray format: expected [color, position, weight, proximity]''))"

definition validate_subcube :: "jsval \<Rightarrow> error + jsval" where
  "validate_subcube entity =
     bind_err (get_prop entity ''vertexArray'') (\<lambda>vertexArray.
       if \<not> (case vertexArray of JArr vs \<Rightarrow> list_all (array_of_length 2) vs | _ \<Rightarrow> False)
         then Inl (ValidationError
                     ''Invalid vertexArray format: expected [vertexID, blendingLogicId]'')
       else bind_err (get_prop entity ''center'') (\<lambda>center.
         if \<not> array_of_length 3 center
           then Inl (ValidationError ''Invalid center format: must be [x, y, z]'')
         else Inr entity))"

definition validate_matrix :: "jsval \<Rightarrow> error + jsval" where
  "validate_matrix entity =
     bind_err (get_prop entity ''redLayer'') (\<lambda>redLayer.
     bind_err (get_prop entity ''greenLayer'') (\<lambda>greenLayer.
     bind_err (get_prop entity ''blueLayer'') (\<lambda>blueLayer.
       if \<not> is_array redLayer \<or> \<not> is_array greenLayer \<or> \<not> is_array blueLayer
         then Inl (ValidationError
                     ''Invalid matrix layers: must include redLayer, greenLayer, blueLayer'')
       else bind_err (get_prop entity ''binData'') (\<lambda>binData.
         if \<not> is_array binData
           then Inl (ValidationError ''Invalid binData: must be an array of bin objects'')
         else Inr entity))))"

text \<open>
  \<open>validateEntity\<close> returns \<open>true\<close> and, for the two vertex stores, has assigned
  \<open>proximityPadding\<close> on the entity it was given: the model returns the entity as the call
  leaves it.
\<close>

definition validateEntity :: "runtime \<Rightarrow> storage \<Rightarrow> jsval \<Rightarrow> string \<Rightarrow> error + jsval" where
  "validateEntity rt s entity storeName =
     (if db s = None then Inl NotInitialized
      else if storeName = ''CubeVertices'' \<or> storeName = ''SubcubeVertices''
        then validate_vertex rt entity
      else if storeName = ''Subcubes''
        then validate_subcube entity
      else if storeName = ''CubeMatrix'' \<or> storeName = ''SubcubeMatrix''
              \<or> storeName = ''BackgroundMatrix''
        then validate_matrix entity
      else Inr entity)"

text \<open>
  \<open>validateOriginID\<close>: the template literal converts \<open>windowUID\<close> and \<open>cubeId\<close> to
  strings, and on a mismatch the message of the error converts \<open>originID\<close> too; each
  conversion may throw.
\<close>

definition validateOriginID :: "runtime \<Rightarrow> jsval \<Rightarrow> jsval \<Rightarrow> jsval \<Rightarrow> error + bool" where
  "validateOriginID rt originID windowUID cubeId =
     bind_err (to_string rt windowUID) (\<lambda>w.
     bind_err (to_string rt cubeId) (\<lambda>c.
       let expected = w @ c
       in if originID \<noteq> JStr expected
            then bind_err (to_string rt originID) (\<lambda>got.
                   Inl (ConsistencyError
                          (''Invalid originID: expected '' @ expected @ '', got '' @ got)))
          else Inr True))"

text \<open>
  The origin check of \<open>save\<close>, made for the stores \<open>Subcubes\<close> and \<open>SubcubeVertices\<close> only.
\<close>

definition check_origin :: "runtime \<Rightarrow> jsval \<Rightarrow> string \<Rightarrow> error + bool" where
  "check_origin rt entity storeName =
     (if storeName \<in> set [''Subcubes'', ''SubcubeVertices'']
        then bind_err (get_prop entity ''originID'') (\<lambda>originID.
             bind_err (get_prop entity ''windowUID'') (\<lambda>windowUID.
             bind_err (get_prop entity ''cubeId'') (\<lambda>cubeId.
               validateOriginID rt originID windowUID cubeId)))
      else Inr True)"

text \<open>
  \<open>save\<close>: the outcome of the promise and the store afterwards. The request of an accepted
  \<open>put\<close> is taken to succeed (the engine's own failures, such as a full disk, are outside
  the model).
\<close>

definition save :: "runtime \<Rightarrow> storage \<Rightarrow> jsval \<Rightarrow> string \<Rightarrow> (error + unit) \<times> storage" where
  "save rt s entity storeName =
     (case validateEntity rt s entity storeName of
        Inl e \<Rightarrow> (Inl e, s)
      | Inr entity' \<Rightarrow>
          (case check_origin rt entity' storeName of
             Inl e \<Rightarrow> (Inl e, s)
           | Inr ok \<Rightarrow>
               (case db s of
                  None \<Rightarrow> (Inl NotInitialized, s)
                | Some d \<Rightarrow>
                    (case put d storeName entity' of
                       Inl e \<Rightarrow> (Inl e, s)
                     | Inr d' \<Rightarrow> (Inr (), s\<lparr>db := Some d'\<rparr>)))))"

text \<open>\<open>get\<close>: a miss resolves with \<open>undefined\<close>; a key that is no valid key throws.\<close>

definition get :: "storage \<Rightarrow> jsval \<Rightarrow> string \<Rightarrow> error + jsval" where
  "get s key storeName =
     (case db s of
        None \<Rightarrow> Inl NotInitialized
      | Some d \<Rightarrow>
          (case key_path storeName of
             None \<Rightarrow> Inl NotFoundError
           | Some path \<Rightarrow>
               if \<not> valid_key key then Inl DataError
               else Inr (case d storeName key of None \<Rightarrow> JUndefined | Some v \<Rightarrow> v)))"

text \<open>
  The \<open>length\<close> property of a value that is neither \<open>undefined\<close> nor \<open>null\<close>.
\<close>

fun get_length :: "jsval \<Rightarrow> jsval" where
  "get_length (JArr xs) = JNum (Fin (of_nat (length xs)))"
| "get_length (JStr s) = JNum (Fin (of_nat (length s)))"
| "get_length (JWrap (JStr s)) = JNum (Fin (of_nat (length s)))"
| "get_length (JObj ps) = (case map_of ps ''length'' of None \<Rightarrow> JUndefined | Some v \<Rightarrow> v)"
| "get_length _ = JUndefined"

datatype promise = Resolved | Rejected error | Pending

text \<open>\<open>x ? x.length : 0\<close>, the number of operations a list of the bundle announces.\<close>

definition announced :: "jsval \<Rightarrow> jsval" where
  "announced xs = (if truthy xs then get_length xs else JNum (Fin 0))"

text \<open>
  The requests placed in a transaction so far: the exception that has ended the placing, if
  any, the content of the database with the placed \<open>put\<close>s applied, and their number.
\<close>

record progress =
  thrown :: "error option"
  content :: database
  placed :: nat

definition place_put :: "string \<Rightarrow> progress \<Rightarrow> jsval \<Rightarrow> progress" where
  "place_put storeName pr entity =
     (case thrown pr of
        Some e \<Rightarrow> pr
      | None \<Rightarrow>
          (case put (content pr) storeName entity of
             Inl e \<Rightarrow> pr\<lparr>thrown := Some e\<rparr>
           | Inr d \<Rightarrow> pr\<lparr>content := d, placed := Suc (placed pr)\<rparr>))"

text \<open>
  \<open>if (xs && xs.length > 0) { xs.forEach(x => store.put(x)) }\<close>: the comparison converts
  the length to a number; only an array has \<open>forEach\<close>, and on any other value with a
  positive length the call throws a \<open>TypeError\<close>.
\<close>

definition place_all :: "runtime \<Rightarrow> string \<Rightarrow> progress \<Rightarrow> jsval \<Rightarrow> progress" where
  "place_all rt storeName pr xs =
     (case thrown pr of
        Some e \<Rightarrow> pr
      | None \<Rightarrow>
          if truthy xs
            then (case to_number rt (get_length xs) of
                    Inl e \<Rightarrow> pr\<lparr>thrown := Some e\<rparr>
                  | Inr n \<Rightarrow>
                      if num_lt (Fin 0) n
                        then (case xs of
                                JArr es \<Rightarrow> foldl (place_put storeName) pr es
                              | _ \<Rightarrow> pr\<lparr>thrown := Some TypeError\<rparr>)
                      else pr)
          else pr)"

text \<open>
  \<open>totalOperations\<close>: \<open>1\<close>, to which the three announced numbers are added with \<open>+=\<close>, each
  after its list was read from the bundle.
\<close>

definition total_operations :: "runtime \<Rightarrow> jsval \<Rightarrow> error + jsval" where
  "total_operations rt cubeData =
     bind_err (get_prop cubeData ''subcubes'') (\<lambda>subcubes.
     bind_err (js_add rt (JNum (Fin 1)) (announced subcubes)) (\<lambda>t1.
     bind_err (get_prop cubeData ''subcubeVertices'') (\<lambda>subcubeVertices.
     bind_err (js_add rt t1 (announced subcubeVertices)) (\<lambda>t2.
     bind_err (get_prop cubeData ''cubeVertices'') (\<lambda>cubeVertices.
       js_add rt t2 (announced cubeVertices))))))"

text \<open>
  \<open>updateCubeHierarchy\<close>. An exception thrown while the requests are placed rejects the
  promise; it does not abort the transaction, which commits the requests placed before.
  Without an exception every placed request succeeds and counts one completion; the promise
  resolves when the count of completions meets \<open>totalOperations\<close>, and stays pending when
  it never does. The count is a natural number: an array has fewer than \<open>2^32\<close> elements,
  and up to \<open>2^53\<close> the increments of the counter are exact.
\<close>

definition updateCubeHierarchy :: "runtime \<Rightarrow> storage \<Rightarrow> jsval \<Rightarrow> promise \<times> storage" where
  "updateCubeHierarchy rt s cubeData =
     (case db s of
        None \<Rightarrow> (Rejected NotInitialized, s)
      | Some d \<Rightarrow>
          (case bind_err (total_operations rt cubeData) (\<lambda>totalOperations.
                bind_err (get_prop cubeData ''cube'') (\<lambda>cube.
                bind_err (get_prop cubeData ''subcubes'') (\<lambda>subcubes.
                bind_err (get_prop cubeData ''subcubeVertices'') (\<lambda>subcubeVertices.
                bind_err (get_prop cubeData ''cubeVertices'') (\<lambda>cubeVertices.
                  Inr (totalOperations, cube, subcubes, subcubeVertices, cubeVertices)))))) of
             Inl e \<Rightarrow> (Rejected e, s)
           | Inr (totalOperations, cube, subcubes, subcubeVertices, cubeVertices) \<Rightarrow>
               let p0 = \<lparr> thrown = None, content = d, placed = 0 \<rparr>;
                   p1 = place_put ''Cubes'' p0 cube;
                   p2 = place_all rt ''Subcubes'' p1 subcubes;
                   p3 = place_all rt ''SubcubeVertices'' p2 subcubeVertices;
                   p4 = place_all rt ''CubeVertices'' p3 cubeVertices
               in ((case thrown p4 of
                      Some e \<Rightarrow> Rejected e
                    | None \<Rightarrow>
                        if list_ex (\<lambda>k. totalOperations = JNum (Fin (of_nat k))) [1 ..< Suc (placed p4)]
                          then Resolved
                        else Pending),
                   s\<lparr>db := Some (content p4)\<rparr>)))"

section \<open>painter.js\<close>

subsection \<open>The painter and \<open>blend\<close>\<close>

record bin =
  color :: jsval
  active :: bool
  depth :: jsval

record painter =
  binSize :: jsval
  ambientValue :: jsval
  bins :: "(string \<times> bin) list"

text \<open>The constructor, with its defaults \<open>binSize = 10\<close> and \<open>ambientValue = [10, 10, 10]\<close>.\<close>

definition Painter :: "jsval option \<Rightarrow> jsval option \<Rightarrow> painter" where
  "Painter bs av =
     \<lparr> binSize = (case bs of None \<Rightarrow> JNum (Fin 10) | Some JUndefined \<Rightarrow> JNum (Fin 10) | Some v \<Rightarrow> v),
       ambientValue =
         (case av of
            None \<Rightarrow> JArr [JNum (Fin 10), JNum (Fin 10), JNum (Fin 10)]
          | Some JUndefined \<Rightarrow> JArr [JNum (Fin 10), JNum (Fin 10), JNum (Fin 10)]
          | Some v \<Rightarrow> v),
       bins = [] \<rparr>"

text \<open>
  \<open>blend(color1, color2, { weight, proximity })\<close>: the strategy is
  \<open>blendingFunctions[proximity] || blendingFunctions.blendBackground\<close>, where \<open>proximity\<close>
  is converted to a property key, called with \<open>{ weight, ambient: this.ambientValue }\<close>.
\<close>

definition blend :: "runtime \<Rightarrow> painter \<Rightarrow> jsval \<Rightarrow> jsval \<Rightarrow> jsval \<Rightarrow> error + jsval" where
  "blend rt p color1 color2 params =
     bind_err (get_prop params ''weight'') (\<lambda>weight.
     bind_err (get_prop params ''proximity'') (\<lambda>proximity.
     bind_err (to_string rt proximity) (\<lambda>key.
       let args = JObj [(''weight'', weight), (''ambient'', ambientValue p)]
       in case blendingFunctions key of
            None \<Rightarrow> blendBackground rt color1 color2 args
          | Some OwnBlendCornerByProximity \<Rightarrow> BlendCornerByProximity rt color1 color2 args
          | Some OwnBlendVrtxByWeight \<Rightarrow> BlendVrtxByWeight rt color1 color2 args
          | Some OwnBlendBackground \<Rightarrow> blendBackground rt color1 color2 args
          | Some (Inherited name) \<Rightarrow> call_inherited name color1)))"

subsection \<open>\<open>createBins\<close>\<close>

text \<open>
  Iteration (\<open>for ... of\<close>, spreading, array destructuring): an array gives its elements,
  a string or its wrapper its characters; no other value of the model is iterable.
\<close>

fun iterate :: "jsval \<Rightarrow> error + jsval list" where
  "iterate (JArr xs) = Inr xs"
| "iterate (JStr s) = Inr (map (\<lambda>c. JStr [c]) s)"
| "iterate (JWrap (JStr s)) = Inr (map (\<lambda>c. JStr [c]) s)"
| "iterate _ = Inl TypeError"

definition nth_or_undefined :: "jsval list \<Rightarrow> nat \<Rightarrow> jsval" where
  "nth_or_undefined xs i = (if i < length xs then xs ! i else JUndefined)"

text \<open>\<open>a || b\<close> where evaluating either side may throw: \<open>b\<close> counts only when \<open>a\<close> is falsy.\<close>

definition or_else :: "error + jsval \<Rightarrow> error + jsval \<Rightarrow> error + jsval" where
  "or_else a b = bind_err a (\<lambda>x. if truthy x then Inr x else b)"

text \<open>\<open>vertex.valueArray[i] || vertex.value[i]\<close>\<close>

definition vertex_field :: "jsval \<Rightarrow> nat \<Rightarrow> error + jsval" where
  "vertex_field vertex i =
     or_else (bind_err (get_prop vertex ''valueArray'') (\<lambda>valueArray. get_index valueArray i))
             (bind_err (get_prop vertex ''value'') (\<lambda>val. get_index val i))"

text \<open>\<open>item.value[2] || item.vertexArray.map(v => ({ valueArray: v }))\<close>; only an array has \<open>map\<close>.\<close>

definition item_vertices :: "jsval \<Rightarrow> error + jsval" where
  "item_vertices item =
     or_else (bind_err (get_prop item ''value'') (\<lambda>val. get_index val 2))
             (bind_err (get_prop item ''vertexArray'') (\<lambda>vertexArray.
                case vertexArray of
                  JArr vs \<Rightarrow> Inr (JArr (map (\<lambda>v. JObj [(''valueArray'', v)]) vs))
                | _ \<Rightarrow> Inl TypeError))"

text \<open>\<open>findFarthestDepth\<close>: the two nested loops, with \<open>maxZ\<close> as the accumulator.\<close>

fun depth_of_vertices :: "runtime \<Rightarrow> jsnum \<Rightarrow> jsval list \<Rightarrow> error + jsnum" where
  "depth_of_vertices rt maxZ [] = Inr maxZ"
| "depth_of_vertices rt maxZ (vertex # vs) =
     bind_err (vertex_field vertex 1) (\<lambda>pos.
     bind_err (get_index pos 2) (\<lambda>z.
     bind_err (to_number rt z) (\<lambda>n.
       depth_of_vertices rt (num_max maxZ n) vs)))"

fun depth_of_items :: "runtime \<Rightarrow> jsnum \<Rightarrow> jsval list \<Rightarrow> error + jsnum" where
  "depth_of_items rt maxZ [] = Inr maxZ"
| "depth_of_items rt maxZ (item # items) =
     bind_err (item_vertices item) (\<lambda>vertices.
     bind_err (iterate vertices) (\<lambda>vs.
     bind_err (depth_of_vertices rt maxZ vs) (\<lambda>maxZ'.
       depth_of_items rt maxZ' items)))"

definition findFarthestDepth :: "runtime \<Rightarrow> jsval \<Rightarrow> error + jsnum" where
  "findFarthestDepth rt data = bind_err (iterate data) (\<lambda>items. depth_of_items rt NegInf items)"

text \<open>\<open>const [x, y, z] = vertex.valueArray[1] || vertex.value[1]\<close>\<close>

definition vertex_xyz :: "jsval \<Rightarrow> error + jsval \<times> jsval \<times> jsval" where
  "vertex_xyz vertex =
     bind_err (vertex_field vertex 1) (\<lambda>pos.
     bind_err (iterate pos) (\<lambda>cs.
       Inr (nth_or_undefined cs 0, nth_or_undefined cs 1, nth_or_undefined cs 2)))"

text \<open>\<open>Math.floor(c / this.binSize)\<close>\<close>

definition bin_index :: "runtime \<Rightarrow> painter \<Rightarrow> jsval \<Rightarrow> error + jsnum" where
  "bin_index rt p c =
     bind_err (to_number rt c) (\<lambda>a.
     bind_err (to_number rt (binSize p)) (\<lambda>b. Inr (num_floor (num_div a b))))"

definition bin_key ::
  "runtime \<Rightarrow> painter \<Rightarrow> bool \<Rightarrow> jsval \<Rightarrow> jsval \<Rightarrow> jsval \<Rightarrow> error + string" where
  "bin_key rt p isBackground x y z =
     bind_err (bin_index rt p x) (\<lambda>row.
     bind_err (bin_index rt p y) (\<lambda>col.
     bind_err (bin_index rt p z) (\<lambda>depthBin.
       Inr (if isBackground
              then number_to_string rt row @ '','' @ number_to_string rt col @ '',''
                     @ number_to_string rt depthBin
            else number_to_string rt row @ '','' @ number_to_string rt col))))"

text \<open>
  \<open>if (!this.bins.has(binKey)) this.bins.set(binKey, { color: [...this.ambientValue],
  active: false, depth: z })\<close>
\<close>

definition touch_bin :: "painter \<Rightarrow> string \<Rightarrow> jsval \<Rightarrow> error + painter" where
  "touch_bin p binKey z =
     (if map_of (bins p) binKey \<noteq> None then Inr p
      else bind_err (iterate (ambientValue p)) (\<lambda>ambient.
             Inr (p\<lparr>bins := AList.update binKey \<lparr>color = JArr ambient, active = False, depth = z\<rparr>
                                (bins p)\<rparr>)))"

text \<open>\<open>vertex.valueArray[3] || vertex[1] || 'blendBackground'\<close>\<close>

definition vertex_blend_logic :: "jsval \<Rightarrow> error + jsval" where
  "vertex_blend_logic vertex =
     or_else (or_else (bind_err (get_prop vertex ''valueArray'') (\<lambda>valueArray. get_index valueArray 3))
                      (get_index vertex 1))
             (Inr (JStr ''blendBackground''))"

text \<open>The body of the inner loop of \<open>createBins\<close> for one vertex.\<close>

definition process_vertex :: "runtime \<Rightarrow> jsnum \<Rightarrow> bool \<Rightarrow> painter \<Rightarrow> jsval \<Rightarrow> error + painter" where
  "process_vertex rt maxDepth isBackground p vertex =
     bind_err (vertex_xyz vertex) (\<lambda>(x, y, z).
     bind_err (bin_key rt p isBackground x y z) (\<lambda>binKey.
     bind_err (touch_bin p binKey z) (\<lambda>p1.
     bind_err (to_number rt z) (\<lambda>depthOfVertex.
       if num_le depthOfVertex (num_add maxDepth (Fin 1))
         then bind_err (vertex_blend_logic vertex) (\<lambda>blendLogic.
              case map_of (bins p1) binKey of
                None \<Rightarrow> Inl TypeError
              | Some b \<Rightarrow>
                  bind_err (vertex_field vertex 0) (\<lambda>color2.
                  bind_err (vertex_field vertex 2) (\<lambda>weight.
                  bind_err (blend rt p1 (color b) color2
                              (JObj [(''weight'', weight), (''proximity'', blendLogic)])) (\<lambda>c.
                    let b1 = b\<lparr>color := c, active := True\<rparr>
                    in if isBackground
                         then bind_err (to_number rt (depth b1)) (\<lambda>old.
                              bind_err (to_number rt z) (\<lambda>new.
                                Inr (p1\<lparr>bins := AList.update binKey (b1\<lparr>depth := JNum (num_max old new)\<rparr>)
                                                   (bins p1)\<rparr>)))
                       else Inr (p1\<lparr>bins := AList.update binKey b1 (bins p1)\<rparr>)))))
       else Inr p1))))"

fun process_vertices ::
  "runtime \<Rightarrow> jsnum \<Rightarrow> bool \<Rightarrow> painter \<Rightarrow> jsval list \<Rightarrow> error + painter" where
  "process_vertices rt maxDepth isBackground p [] = Inr p"
| "process_vertices rt maxDepth isBackground p (vertex # vs) =
     bind_err (process_vertex rt maxDepth isBackground p vertex) (\<lambda>p'.
       process_vertices rt maxDepth isBackground p' vs)"

fun process_items ::
  "runtime \<Rightarrow> jsnum \<Rightarrow> bool \<Rightarrow> painter \<Rightarrow> jsval list \<Rightarrow> error + painter" where
  "process_items rt maxDepth isBackground p [] = Inr p"
| "process_items rt maxDepth isBackground p (item # items) =
     bind_err (item_vertices item) (\<lambda>vertices.
     bind_err (iterate vertices) (\<lambda>vs.
     bind_err (process_vertices rt maxDepth isBackground p vs) (\<lambda>p'.
       process_items rt maxDepth isBackground p' items)))"

text \<open>
  \<open>createBins(data, isBackground)\<close>: the painter with the bins it returns, or the
  exception that ended it.
\<close>

definition createBins :: "runtime \<Rightarrow> painter \<Rightarrow> jsval \<Rightarrow> bool \<Rightarrow> error + painter" where
  "createBins rt p data isBackground =
     bind_err (findFarthestDepth rt data) (\<lambda>maxDepth.
     bind_err (iterate data) (\<lambda>items.
       process_items rt maxDepth isBackground (p\<lparr>bins := []\<rparr>) items))"

section \<open>storage.js: the spatial index\<close>

text \<open>
  A bin of the index, which is also the shape of the result of a query and of
  \<open>getEntitiesInBounds\<close>: three lists.
\<close>

record index_bin =
  cubes :: "jsval list"
  subcubes :: "jsval list"
  subcubeVertices :: "jsval list"

definition empty_bin :: index_bin where
  "empty_bin = \<lparr> cubes = [], subcubes = [], subcubeVertices = [] \<rparr>"

record spatial_index =
  index_binSize :: jsval
  index_bins :: "string \<rightharpoonup> index_bin"

text \<open>
  The three kinds of entity are treated alike, each with its own list and its own place for
  the position: \<open>cube.value[0]\<close>, \<open>subcube.center\<close> and \<open>vertex.value[1]\<close>.
\<close>

datatype entity_kind = CubeKind | SubcubeKind | VertexKind

fun position_of :: "entity_kind \<Rightarrow> jsval \<Rightarrow> error + jsval" where
  "position_of CubeKind cube = bind_err (get_prop cube ''value'') (\<lambda>val. get_index val 0)"
| "position_of SubcubeKind subcube = get_prop subcube ''center''"
| "position_of VertexKind vertex = bind_err (get_prop vertex ''value'') (\<lambda>val. get_index val 1)"

fun list_of :: "entity_kind \<Rightarrow> index_bin \<Rightarrow> jsval list" where
  "list_of CubeKind b = cubes b"
| "list_of SubcubeKind b = subcubes b"
| "list_of VertexKind b = subcubeVertices b"

fun push :: "entity_kind \<Rightarrow> jsval \<Rightarrow> index_bin \<Rightarrow> index_bin" where
  "push CubeKind e b = b\<lparr>cubes := cubes b @ [e]\<rparr>"
| "push SubcubeKind e b = b\<lparr>subcubes := subcubes b @ [e]\<rparr>"
| "push VertexKind e b = b\<lparr>subcubeVertices := subcubeVertices b @ [e]\<rparr>"

text \<open>\<open>xs.filter(f)\<close> where the callback may throw.\<close>

fun filter_err :: "('a \<Rightarrow> error + bool) \<Rightarrow> 'a list \<Rightarrow> error + 'a list" where
  "filter_err f [] = Inr []"
| "filter_err f (x # xs) =
     bind_err (f x) (\<lambda>keep.
     bind_err (filter_err f xs) (\<lambda>ys. Inr (if keep then x # ys else ys)))"

text \<open>\<open>v >= lo && v <= hi\<close> for two numbers \<open>lo\<close> and \<open>hi\<close>: each comparison converts \<open>v\<close>.\<close>

definition between :: "runtime \<Rightarrow> jsnum \<Rightarrow> jsnum \<Rightarrow> jsval \<Rightarrow> error + bool" where
  "between rt lo hi v =
     bind_err (to_number rt v) (\<lambda>n.
       if \<not> num_le lo n then Inr False
       else bind_err (to_number rt v) (\<lambda>n'. Inr (num_le n' hi)))"

text \<open>
  \<open>isInBounds\<close> for bounds whose six entries are numbers, as in the one call of
  \<open>buildSpatialIndex\<close>. The conjunction stops at the first comparison that fails, before
  the next coordinate is read.
\<close>

definition isInBounds ::
  "runtime \<Rightarrow> jsnum \<times> jsnum \<times> jsnum \<Rightarrow> jsnum \<times> jsnum \<times> jsnum \<Rightarrow> jsval \<Rightarrow> error + bool" where
  "isInBounds rt bmin bmax position =
     (case (bmin, bmax) of
        ((min0, min1, min2), (max0, max1, max2)) \<Rightarrow>
          bind_err (get_index position 0) (\<lambda>x.
          bind_err (between rt min0 max0 x) (\<lambda>in0.
            if \<not> in0 then Inr False
            else bind_err (get_index position 1) (\<lambda>y.
                 bind_err (between rt min1 max1 y) (\<lambda>in1.
                   if \<not> in1 then Inr False
                   else bind_err (get_index position 2) (\<lambda>z. between rt min2 max2 z))))))"

definition in_bounds_of_kind ::
  "runtime \<Rightarrow> jsnum \<times> jsnum \<times> jsnum \<Rightarrow> jsnum \<times> jsnum \<times> jsnum \<Rightarrow> entity_kind \<Rightarrow> jsval
     \<Rightarrow> error + bool" where
  "in_bounds_of_kind rt bmin bmax k e = bind_err (position_of k e) (isInBounds rt bmin bmax)"

text \<open>
  \<open>getEntitiesInBounds\<close>. Its three reads through the index \<open>windowUID\<close> are not modelled:
  \<open>fetched\<close> stands for the three lists they resolve with.
\<close>

definition getEntitiesInBounds ::
  "runtime \<Rightarrow> storage \<Rightarrow> jsnum \<times> jsnum \<times> jsnum \<Rightarrow> jsnum \<times> jsnum \<times> jsnum \<Rightarrow> index_bin
     \<Rightarrow> error + index_bin" where
  "getEntitiesInBounds rt s bmin bmax fetched =
     (if db s = None then Inl NotInitialized
      else bind_err (filter_err (in_bounds_of_kind rt bmin bmax CubeKind) (cubes fetched)) (\<lambda>cs.
           bind_err (filter_err (in_bounds_of_kind rt bmin bmax SubcubeKind) (subcubes fetched)) (\<lambda>ss.
           bind_err (filter_err (in_bounds_of_kind rt bmin bmax VertexKind) (subcubeVertices fetched))
             (\<lambda>vs. Inr \<lparr> cubes = cs, subcubes = ss, subcubeVertices = vs \<rparr>))))"

text \<open>
  \<open>getBinCoords\<close> and \<open>getBinKey\<close>. Each coordinate is \<open>Math.floor(position[i] / binSize)\<close>:
  the quotient is the double nearest to the quotient of the two numbers.
\<close>

definition bin_coord :: "runtime \<Rightarrow> jsval \<Rightarrow> jsval \<Rightarrow> nat \<Rightarrow> error + jsnum" where
  "bin_coord rt bsize position i =
     bind_err (get_index position i) (\<lambda>c.
     bind_err (to_number rt c) (\<lambda>a.
     bind_err (to_number rt bsize) (\<lambda>b. Inr (num_floor (num_div a b)))))"

definition getBinCoords :: "runtime \<Rightarrow> jsval \<Rightarrow> jsval \<Rightarrow> error + jsnum \<times> jsnum \<times> jsnum" where
  "getBinCoords rt bsize position =
     bind_err (bin_coord rt bsize position 0) (\<lambda>x.
     bind_err (bin_coord rt bsize position 1) (\<lambda>y.
     bind_err (bin_coord rt bsize position 2) (\<lambda>z. Inr (x, y, z))))"

definition getBinKey :: "runtime \<Rightarrow> jsnum \<times> jsnum \<times> jsnum \<Rightarrow> string" where
  "getBinKey rt binCoords =
     (case binCoords of
        (x, y, z) \<Rightarrow>
          number_to_string rt x @ '','' @ number_to_string rt y @ '','' @ number_to_string rt z)"

text \<open>
  The body of each of the three \<open>forEach\<close> loops that fill the index: the bin of the key is
  created when it is missing, and the entity is pushed on its list.
\<close>

definition add_entity ::
  "runtime \<Rightarrow> jsval \<Rightarrow> entity_kind \<Rightarrow> (string \<rightharpoonup> index_bin) \<Rightarrow> jsval
     \<Rightarrow> error + (string \<rightharpoonup> index_bin)" where
  "add_entity rt bsize k bs e =
     bind_err (position_of k e) (\<lambda>position.
     bind_err (getBinCoords rt bsize position) (\<lambda>binCoords.
       let binKey = getBinKey rt binCoords;
           bs1 = (if bs binKey = None then bs(binKey \<mapsto> empty_bin) else bs)
       in Inr (bs1(binKey \<mapsto> push k e (case bs1 binKey of None \<Rightarrow> empty_bin | Some b \<Rightarrow> b)))))"

fun add_entities ::
  "runtime \<Rightarrow> jsval \<Rightarrow> entity_kind \<Rightarrow> (string \<rightharpoonup> index_bin) \<Rightarrow> jsval list
     \<Rightarrow> error + (string \<rightharpoonup> index_bin)" where
  "add_entities rt bsize k bs [] = Inr bs"
| "add_entities rt bsize k bs (e # es) =
     bind_err (add_entity rt bsize k bs e) (\<lambda>bs'. add_entities rt bsize k bs' es)"

text \<open>
  \<open>buildSpatialIndex(windowUID, binSize = 50)\<close>: the entities of the whole space, then the
  three loops.
\<close>

definition buildSpatialIndex ::
  "runtime \<Rightarrow> storage \<Rightarrow> index_bin \<Rightarrow> jsval \<Rightarrow> error + spatial_index" where
  "buildSpatialIndex rt s fetched bsize0 =
     (let bsize = (if bsize0 = JUndefined then JNum (Fin 50) else bsize0)
      in bind_err (getEntitiesInBounds rt s (NegInf, NegInf, NegInf) (PosInf, PosInf, PosInf) fetched)
           (\<lambda>entities.
         bind_err (add_entities rt bsize CubeKind Map.empty (cubes entities)) (\<lambda>b1.
         bind_err (add_entities rt bsize SubcubeKind b1 (subcubes entities)) (\<lambda>b2.
         bind_err (add_entities rt bsize VertexKind b2 (subcubeVertices entities)) (\<lambda>b3.
           Inr \<lparr> index_binSize = bsize, index_bins = b3 \<rparr>)))))"

text \<open>
  A loop \<open>for (let x = lo; x <= hi; x++) body\<close> whose body updates an accumulator and may
  throw or never return. \<open>None\<close> is the loop that never ends: the increment is an addition
  of doubles, which leaves \<open>x\<close> as it is from \<open>2^53\<close> on and at an infinity.
\<close>

partial_function (option) for_loop ::
  "(jsnum \<Rightarrow> 'a \<Rightarrow> (error + 'a) option) \<Rightarrow> jsnum \<Rightarrow> jsnum \<Rightarrow> 'a \<Rightarrow> (error + 'a) option" where
  "for_loop body x hi acc =
     (if num_le x hi
        then (case body x acc of
                None \<Rightarrow> None
              | Some (Inl e) \<Rightarrow> Some (Inl e)
              | Some (Inr acc') \<Rightarrow> for_loop body (num_add x (Fin 1)) hi acc')
      else Some (Inr acc))"

text \<open>
  \<open>addIfInRadius\<close>: the distance from the query point, computed in doubles with
  \<open>Math.pow\<close> and \<open>Math.sqrt\<close>, compared with the radius.
\<close>

definition squared_difference :: "runtime \<Rightarrow> jsval \<Rightarrow> jsval \<Rightarrow> nat \<Rightarrow> error + jsnum" where
  "squared_difference rt position pos i =
     bind_err (get_index position i) (\<lambda>p.
     bind_err (get_index pos i) (\<lambda>q.
     bind_err (to_number rt p) (\<lambda>a.
     bind_err (to_number rt q) (\<lambda>b. Inr (pow_2 rt (num_sub a b))))))"

definition addIfInRadius :: "runtime \<Rightarrow> jsval \<Rightarrow> jsval \<Rightarrow> jsval \<Rightarrow> error + bool" where
  "addIfInRadius rt position radius pos =
     bind_err (squared_difference rt position pos 0) (\<lambda>s0.
     bind_err (squared_difference rt position pos 1) (\<lambda>s1.
     bind_err (squared_difference rt position pos 2) (\<lambda>s2.
     bind_err (to_number rt radius) (\<lambda>r.
       Inr (num_le (num_sqrt (num_add (num_add s0 s1) s2)) r)))))"

definition in_radius_of_kind ::
  "runtime \<Rightarrow> jsval \<Rightarrow> jsval \<Rightarrow> entity_kind \<Rightarrow> jsval \<Rightarrow> error + bool" where
  "in_radius_of_kind rt position radius k e =
     bind_err (position_of k e) (addIfInRadius rt position radius)"

text \<open>The body of the innermost loop: the bin of the cell, if there is one, adds to the results.\<close>

definition visit_cell ::
  "runtime \<Rightarrow> spatial_index \<Rightarrow> jsval \<Rightarrow> jsval \<Rightarrow> index_bin \<Rightarrow> jsnum \<times> jsnum \<times> jsnum
     \<Rightarrow> error + index_bin" where
  "visit_cell rt idx position radius results cell =
     (case index_bins idx (getBinKey rt cell) of
        None \<Rightarrow> Inr results
      | Some b \<Rightarrow>
          bind_err (filter_err (in_radius_of_kind rt position radius CubeKind) (cubes b)) (\<lambda>cs.
          bind_err (filter_err (in_radius_of_kind rt position radius SubcubeKind) (subcubes b))
            (\<lambda>ss.
          bind_err (filter_err (in_radius_of_kind rt position radius VertexKind)
                      (subcubeVertices b)) (\<lambda>vs.
            Inr \<lparr> cubes = cubes results @ cs, subcubes = subcubes results @ ss,
                  subcubeVertices = subcubeVertices results @ vs \<rparr>))))"

text \<open>\<open>Math.ceil(radius / binSize)\<close>\<close>

definition radius_in_bins :: "runtime \<Rightarrow> jsval \<Rightarrow> jsval \<Rightarrow> error + jsnum" where
  "radius_in_bins rt bsize radius =
     bind_err (to_number rt radius) (\<lambda>r.
     bind_err (to_number rt bsize) (\<lambda>b. Inr (num_ceil (num_div r b))))"

text \<open>
  \<open>queryNearPosition(position, radius)\<close>: \<open>None\<close> when the call never returns, otherwise the
  exception or the results. The three loops are nested as in the source, each running from
  the coordinate of the centre minus \<open>radiusInBins\<close> to that coordinate plus \<open>radiusInBins\<close>.
\<close>

definition queryNearPosition ::
  "runtime \<Rightarrow> spatial_index \<Rightarrow> jsval \<Rightarrow> jsval \<Rightarrow> (error + index_bin) option" where
  "queryNearPosition rt idx position radius =
     (case radius_in_bins rt (index_binSize idx) radius of
        Inl e \<Rightarrow> Some (Inl e)
      | Inr radiusInBins \<Rightarrow>
          (case getBinCoords rt (index_binSize idx) position of
             Inl e \<Rightarrow> Some (Inl e)
           | Inr (c0, c1, c2) \<Rightarrow>
               for_loop (\<lambda>x results.
                 for_loop (\<lambda>y results.
                   for_loop (\<lambda>z results.
                       Some (visit_cell rt idx position radius results (x, y, z)))
                     (num_sub c2 radiusInBins) (num_add c2 radiusInBins) results)
                   (num_sub c1 radiusInBins) (num_add c1 radiusInBins) results)
                 (num_sub c0 radiusInBins) (num_add c0 radiusInBins) empty_bin))"

section \<open>The notions of the specification\<close>

subsection \<open>The entity store\<close>


text \<open>
  The three fields of the origin check can all be converted to strings: no exception of the
  language comes before the error of the check.
\<close>

definition printable :: "runtime \<Rightarrow> jsval \<Rightarrow> bool" where
  "printable rt v = (case to_string rt v of Inr s \<Rightarrow> True | Inl e \<Rightarrow> False)"


text \<open>The two stores whose entities carry the derived field \<open>proximityPadding\<close>.\<close>

definition vertex_store :: "string \<Rightarrow> bool" where
  "vertex_store storeName = (storeName = ''CubeVertices'' \<or> storeName = ''SubcubeVertices'')"

text \<open>
  The key of an entity under a key path (\<open>undefined\<close> when it has none), whether it has one,
  and what a store holds after the entities of a list were put into it one after the other:
  under each key the last entity of the list with that key.
\<close>

definition key_or_undefined :: "string \<Rightarrow> jsval \<Rightarrow> jsval" where
  "key_or_undefined path e = (case extract_key path e of Inr k \<Rightarrow> k | Inl err \<Rightarrow> JUndefined)"

definition keyed :: "string \<Rightarrow> jsval \<Rightarrow> bool" where
  "keyed path e = (case extract_key path e of Inr k \<Rightarrow> True | Inl err \<Rightarrow> False)"

definition latest :: "string \<Rightarrow> jsval list \<Rightarrow> jsval \<rightharpoonup> jsval" where
  "latest path es = map_of (rev (map (\<lambda>e. (key_or_undefined path e, e)) es))"

text \<open>
  A list of a bundle as \<open>updateCubeHierarchy\<close> takes it: an array, or a falsy value (as
  \<open>undefined\<close>) standing for no entities.
\<close>

definition entities :: "jsval \<Rightarrow> jsval list option" where
  "entities v = (case v of JArr es \<Rightarrow> Some es | _ \<Rightarrow> if truthy v then None else Some [])"

subsection \<open>The blend engine\<close>

text \<open>\<open>min(255, base + incoming + ambient)\<close> for one channel.\<close>

definition blendBackground_spec :: "jsnum \<Rightarrow> jsnum \<Rightarrow> jsnum \<Rightarrow> jsnum" where
  "blendBackground_spec b i a = num_min (Fin 255) (num_add (num_add b i) a)"

text \<open>
  A vertex of \<open>createBins\<close> resolves to the strategy identifier \<open>name\<close> when its position can
  be read, it passes the inclusion test \<open>z <= maxDepth + 1\<close>, and the blending logic it
  carries is the property key \<open>name\<close>.
\<close>

definition resolves_to :: "runtime \<Rightarrow> jsnum \<Rightarrow> jsval \<Rightarrow> string \<Rightarrow> bool" where
  "resolves_to rt maxDepth vertex name =
     (case vertex_xyz vertex of
        Inl e \<Rightarrow> False
      | Inr (x, y, z) \<Rightarrow>
          (case to_number rt z of
             Inl e \<Rightarrow> False
           | Inr depthOfVertex \<Rightarrow> num_le depthOfVertex (num_add maxDepth (Fin 1)))
          \<and> (case vertex_blend_logic vertex of
                Inl e \<Rightarrow> False
              | Inr blendLogic \<Rightarrow> to_string rt blendLogic = Inr name))"

subsection \<open>The spatial index\<close>

text \<open>
  A point is an array that starts with three finite numbers; the point of an entity is the
  point at the place where the index reads the position of its kind; the distance is the
  Euclidean one.
\<close>

definition point_of :: "jsval \<Rightarrow> (real \<times> real \<times> real) option" where
  "point_of pos =
     (case pos of
        JArr (JNum (Fin a) # JNum (Fin b) # JNum (Fin c) # rest) \<Rightarrow> Some (a, b, c)
      | _ \<Rightarrow> None)"

definition entity_point :: "entity_kind \<Rightarrow> jsval \<Rightarrow> (real \<times> real \<times> real) option" where
  "entity_point k e = (case position_of k e of Inr pos \<Rightarrow> point_of pos | Inl err \<Rightarrow> None)"

definition euclid :: "real \<times> real \<times> real \<Rightarrow> real \<times> real \<times> real \<Rightarrow> real" where
  "euclid p q =
     (case (p, q) of
        ((p0, p1, p2), (q0, q1, q2)) \<Rightarrow> sqrt ((p0 - q0)\<^sup>2 + (p1 - q1)\<^sup>2 + (p2 - q2)\<^sup>2))"

definition within_radius :: "entity_kind \<Rightarrow> real \<times> real \<times> real \<Rightarrow> real \<Rightarrow> jsval \<Rightarrow> bool" where
  "within_radius k p r e = (case entity_point k e of Some q \<Rightarrow> euclid p q \<le> r | None \<Rightarrow> False)"

definition point :: "real \<Rightarrow> real \<Rightarrow> real \<Rightarrow> jsval" where
  "point a b c = JArr [JNum (Fin a), JNum (Fin b), JNum (Fin c)]"

section \<open>Concrete values\<close>

text \<open>
  The values below are those of \<open>main.js\<close> and of the scenarios of the specification, with
  small changes. Where they are used with \<open>example_runtime\<close>, only integers are printed,
  no string is converted to a number and \<open>Math.pow\<close> is not called, so the functions of the
  engine are never consulted; any engine gives the same results.
\<close>

definition example_runtime :: runtime where
  "example_runtime =
     \<lparr> fmt_number = (\<lambda>r. []), parse_number = (\<lambda>s. NaN), approx_power = (\<lambda>b e. NaN) \<rparr>"

text \<open>An engine whose \<open>Math.pow\<close> gives, for the exponent \<open>2\<close>, the double nearest to the square.\<close>

definition squaring_runtime :: runtime where
  "squaring_runtime =
     example_runtime\<lparr>approx_power := (\<lambda>b e. if e = 2 then round_double (b * b) else NaN)\<rparr>"

text \<open>An initialised store with nothing in it.\<close>

definition fresh_storage :: storage where
  "fresh_storage = \<lparr> dbName = ''CubeDB'', version = 4, db = Some (\<lambda>storeName. Map.empty) \<rparr>"

definition origin_3 :: jsval where
  "origin_3 = JArr [JNum (Fin 0), JNum (Fin 0), JNum (Fin 0)]"

text \<open>The subcube \<open>AA\<close> of window 1 and cube 1, with a centre and an origin to choose.\<close>

definition subcube_AA :: "jsval \<Rightarrow> jsval \<Rightarrow> jsval" where
  "subcube_AA center originID =
     Subcube (JStr ''AA'') (JNum (Fin 1)) center (JNum (Fin 0))
       (JArr [JArr [JStr ''AAv0'', JStr ''BlendCornerByProximity'']]) (JNum (Fin 1)) originID
       (JStr ''BlendCornerByProximity'')"

text \<open>
  The value \<open>[[0, 255, 0], [0, 0, 0], 0.5, "weightedSphere"]\<close> and the subcube vertex the
  class \<open>SubcubeVertex\<close> builds from it.
\<close>

definition green_vertex_value :: jsval where
  "green_vertex_value =
     JArr [JArr [JNum (Fin 0), JNum (Fin 255), JNum (Fin 0)], origin_3, JNum (Fin (1 / 2)),
           JStr ''weightedSphere'']"

definition model_vertex :: jsval where
  "model_vertex =
     JObj [(''id'', JStr ''AAv0''), (''windowUID'', JNum (Fin 1)), (''cubeId'', JNum (Fin 1)),
           (''subCubeID'', JStr ''AA''), (''originID'', JStr ''11''),
           (''value'', green_vertex_value), (''activeWindowUID'', JNum (Fin 1)),
           (''proximityPadding'', JNum (Fin (1 / 2)))]"

text \<open>
  A subcube vertex in the shape \<open>validateEntity\<close> asks for, with a weight and a
  \<open>proximityPadding\<close> to choose.
\<close>

definition stored_vertex :: "jsval \<Rightarrow> jsval \<Rightarrow> jsval" where
  "stored_vertex weight padding =
     JObj [(''id'', JStr ''AAv0''), (''windowUID'', JNum (Fin 1)), (''cubeId'', JNum (Fin 1)),
           (''subCubeID'', JStr ''AA''), (''originID'', JStr ''11''),
           (''valueArray'',
              JArr [JArr [JNum (Fin 0), JNum (Fin 255), JNum (Fin 0)], origin_3, weight,
                    JStr ''weightedSphere'']),
           (''proximityPadding'', padding)]"

definition stale_vertex :: jsval where
  "stale_vertex = stored_vertex (JNum (Fin (- 1 / 2))) (JNum (Fin 7))"

text \<open>A cube whose one nested vertex has the colour \<open>[999, -5, 0]\<close>.\<close>

definition bright_cube :: jsval where
  "bright_cube =
     JObj [(''id'', JNum (Fin 1)), (''windowUID'', JNum (Fin 1)),
           (''value'', JArr [origin_3, JArr [JStr ''AA''],
                             JArr [JArr [JArr [JNum (Fin (- 75)), JNum (Fin (- 75)), JNum (Fin (- 75))],
                                         JArr [JNum (Fin 999), JNum (Fin (- 5)), JNum (Fin 0)]]]]),
           (''blendingLogicId'', JStr ''blendBackground'')]"

text \<open>
  A cube vertex in the shape \<open>validateEntity\<close> asks for, with weight \<open>-2\<close>; \<open>extra\<close> is its
  \<open>proximityPadding\<close>, if it has one.
\<close>

definition red_corner :: "jsval list \<Rightarrow> jsval" where
  "red_corner extra =
     JObj ([(''vertexID'', JStr ''1vrtx0''), (''windowUID'', JNum (Fin 1)),
            (''valueArray'',
               JArr [JArr [JNum (Fin 255), JNum (Fin 0), JNum (Fin 0)],
                     JArr [JNum (Fin (- 75)), JNum (Fin (- 75)), JNum (Fin (- 75))],
                     JNum (Fin (- 2)), JStr ''blendBackground'']),
            (''blendingLogicId'', JStr ''blendBackground'')]
           @ map (\<lambda>v. (''proximityPadding'', v)) extra)"

text \<open>The first cube vertex of \<open>main.js\<close>, as the class \<open>CubeVertex\<close> builds it, and its bundle.\<close>

definition red_vertex :: jsval where
  "red_vertex =
     CubeVertex (JStr ''1vrtx0'') (JNum (Fin 1))
       (JArr [JNum (Fin (- 75)), JNum (Fin (- 75)), JNum (Fin (- 75))])
       (JArr [JNum (Fin 255), JNum (Fin 0), JNum (Fin 0)]) (JStr ''blendBackground'')"

definition sample_bundle :: jsval where
  "sample_bundle =
     JObj [(''cube'', bright_cube), (''subcubes'', JArr [subcube_AA origin_3 (JStr ''11'')]),
           (''subcubeVertices'', JArr [model_vertex]), (''cubeVertices'', JArr [red_vertex])]"

text \<open>An item for \<open>createBins\<close> with one vertex that names \<open>BlendCornerByProximity\<close>.\<close>

definition corner_vertex :: jsval where
  "corner_vertex =
     JObj [(''valueArray'',
              JArr [JArr [JNum (Fin 0), JNum (Fin 255), JNum (Fin 0)], origin_3, JNum (Fin (1 / 2)),
                    JStr ''BlendCornerByProximity''])]"

definition corner_item :: jsval where
  "corner_item = JObj [(''id'', JNum (Fin 1)), (''value'', JArr [origin_3, JArr [], JArr [corner_vertex]])]"

definition dim_color :: jsval where
  "dim_color = JArr [JNum (Fin 10), JNum (Fin 10), JNum (Fin 10)]"

definition bright_color :: jsval where
  "bright_color = JArr [JNum (Fin 250), JNum (Fin 250), JNum (Fin 10)]"

text \<open>
  The doubles that the literals \<open>0.1\<close>, \<open>0.2\<close>, \<open>0.3\<close> and \<open>2.2\<close> denote (\<open>0.5\<close> and
  \<open>2.5\<close> are doubles themselves).
\<close>

definition double_0_1 :: real where
  "double_0_1 = 3602879701896397 / 2 ^ 55"

definition double_0_2 :: real where
  "double_0_2 = 3602879701896397 / 2 ^ 54"

definition double_0_3 :: real where
  "double_0_3 = 5404319552844595 / 2 ^ 54"

definition double_2_2 :: real where
  "double_2_2 = 2476979795053773 / 2 ^ 50"

text \<open>A cube at a position.\<close>

definition cube_at :: "real \<Rightarrow> real \<Rightarrow> real \<Rightarrow> real \<Rightarrow> jsval" where
  "cube_at ident a b c =
     JObj [(''id'', JNum (Fin ident)), (''windowUID'', JNum (Fin 1)),
           (''value'', JArr [point a b c, JArr [], JArr []]),
           (''blendingLogicId'', JStr ''blendBackground'')]"

text \<open>
  The store after the cube at \<open>[2.5, 0, 0]\<close> was saved, what the reads of
  \<open>getEntitiesInBounds\<close> find in it for the window \<open>1\<close>, and the index that
  \<open>buildSpatialIndex\<close> builds over it for \<open>binSize = 0.1\<close>: the cube is in the bin of the
  cell \<open>25,0,0\<close>.
\<close>

definition far_storage :: storage where
  "far_storage =
     fresh_storage\<lparr>db := Some ((\<lambda>storeName. Map.empty)
                                  (''Cubes'' := [JNum (Fin 1) \<mapsto> cube_at 1 (5 / 2) 0 0]))\<rparr>"

definition far_fetched :: index_bin where
  "far_fetched = \<lparr> cubes = [cube_at 1 (5 / 2) 0 0], subcubes = [], subcubeVertices = [] \<rparr>"

definition far_index :: spatial_index where
  "far_index =
     \<lparr> index_binSize = JNum (Fin double_0_1), index_bins = [''25,0,0'' \<mapsto> far_fetched] \<rparr>"

text \<open>The same for the cube at \<open>[0.5, 0, 0]\<close>, which is in the bin of the cell \<open>5,0,0\<close>.\<close>

definition near_storage :: storage where
  "near_storage =
     fresh_storage\<lparr>db := Some ((\<lambda>storeName. Map.empty)
                                  (''Cubes'' := [JNum (Fin 1) \<mapsto> cube_at 1 (1 / 2) 0 0]))\<rparr>"

definition near_fetched :: index_bin where
  "near_fetched = \<lparr> cubes = [cube_at 1 (1 / 2) 0 0], subcubes = [], subcubeVertices = [] \<rparr>"

definition near_index :: spatial_index where
  "near_index =
     \<lparr> index_binSize = JNum (Fin double_0_1), index_bins = [''5,0,0'' \<mapsto> near_fetched] \<rparr>"

section \<open>Lemmas about numbers and conversions\<close>

lemma binary_exponent_bounds:
  "0 < x \<Longrightarrow> power_int 2 (binary_exponent x) \<le> x \<and> x < power_int 2 (binary_exponent x + 1)"
proof (induction x rule: binary_exponent.induct)
  case (1 x)
  show ?case
  proof (cases "2 \<le> x")
    case True
    with 1 have ih: "power_int 2 (binary_exponent (x / 2)) \<le> x / 2"
      "x / 2 < power_int 2 (binary_exponent (x / 2) + 1)" by simp_all
    have e: "binary_exponent x = binary_exponent (x / 2) + 1"
      using True by (subst binary_exponent.simps) simp
    have "power_int (2::real) (binary_exponent (x / 2) + 1) = 2 * power_int 2 (binary_exponent (x / 2))"
      by (simp add: power_int_add)
    moreover have "power_int (2::real) (binary_exponent (x / 2) + 1 + 1)
        = 2 * power_int 2 (binary_exponent (x / 2) + 1)"
      by (simp add: power_int_add)
    ultimately show ?thesis using ih by (simp add: e)
  next
    case False
    show ?thesis
    proof (cases "x < 1")
      case True
      with 1 False have ih: "power_int 2 (binary_exponent (2 * x)) \<le> 2 * x"
        "2 * x < power_int 2 (binary_exponent (2 * x) + 1)" by simp_all
      have e: "binary_exponent x = binary_exponent (2 * x) - 1"
        using True False 1(3) by (subst binary_exponent.simps) simp
      have "power_int (2::real) (binary_exponent (2 * x) - 1) = power_int 2 (binary_exponent (2 * x)) / 2"
        by (simp add: power_int_diff)
      moreover have "power_int (2::real) (binary_exponent (2 * x) - 1 + 1)
        = power_int 2 (binary_exponent (2 * x) + 1) / 2"
        by (simp add: power_int_add)
      ultimately show ?thesis using ih by (simp add: e)
    next
      case F2: False
      have e: "binary_exponent x = 0"
        using False F2 1(3) by (subst binary_exponent.simps) simp
      show ?thesis using False F2 by (simp add: e)
    qed
  qed
qed

lemma round_half_even_of_int: "round_half_even (of_int k) = k"
  by (simp add: round_half_even_def)

lemma round_double_of_int:
  assumes "\<bar>i\<bar> \<le> 2 ^ 53"
  shows "round_double (of_int i) = Fin (of_int i)"
proof (cases "i = 0")
  case True
  then show ?thesis by (simp add: round_double_def binary_exponent.simps round_half_even_def)
next
  case False
  define a :: real where "a = \<bar>of_int i\<bar>"
  define e where "e = binary_exponent a"
  have a1: "1 \<le> a" using False by (simp add: a_def)
  have a2: "a \<le> 2 ^ 53" using assms unfolding a_def
    by (metis of_int_abs of_int_le_iff of_int_numeral of_int_power)
  from binary_exponent_bounds[of a] a1
  have b: "power_int 2 e \<le> a" "a < power_int 2 (e + 1)" by (simp_all add: e_def)
  have e0: "0 \<le> e"
  proof (rule ccontr)
    assume "\<not> 0 \<le> e"
    then have "e + 1 \<le> 0" by simp
    then have "power_int (2::real) (e + 1) \<le> power_int 2 0"
      by (intro power_int_increasing) simp_all
    with b a1 show False by simp
  qed
  have e53: "e \<le> 53"
  proof (rule ccontr)
    assume "\<not> e \<le> 53"
    then have "54 \<le> e" by simp
    then have "power_int (2::real) 54 \<le> power_int 2 e"
      by (intro power_int_increasing) simp_all
    with b a2 show False by simp
  qed
  have m: "max e (- 1022) = e" using e0 by simp
  have y: "of_int (round_half_even (a * power_int 2 (52 - e))) * power_int 2 (e - 52) = a"
  proof (cases "e \<le> 52")
    case True
    then have p: "power_int (2::real) (52 - e) = of_int (2 ^ nat (52 - e))"
      by (simp add: power_int_def)
    have "a * power_int 2 (52 - e) = of_int (\<bar>i\<bar> * 2 ^ nat (52 - e))"
      unfolding p a_def by simp
    then have "of_int (round_half_even (a * power_int 2 (52 - e))) = a * power_int 2 (52 - e)"
      by (simp only: round_half_even_of_int)
    then show ?thesis by (simp flip: power_int_add)
  next
    case F: False
    with e53 have e: "e = 53" by simp
    from b(1) a2 have a: "a = 2 ^ 53" by (simp add: e)
    have "a * power_int 2 (52 - e) = of_int (2 ^ 52)" by (simp add: a e)
    then have "round_half_even (a * power_int 2 (52 - e)) = 2 ^ 52"
      by (simp only: round_half_even_of_int)
    then show ?thesis by (simp add: a e)
  qed
  have big: "\<not> (2::real) ^ 1024 \<le> a"
  proof -
    have "(2::real) ^ 53 < 2 ^ 1024" by (rule power_strict_increasing) simp_all
    with a2 show ?thesis by linarith
  qed
  have s: "sgn (of_int i :: real) * a = of_int i"
    unfolding a_def by (simp add: sgn_mult_abs)
  show ?thesis
    unfolding round_double_def Let_def a_def[symmetric] e_def[symmetric] m y
    using big s by simp
qed

lemma round_double_of_nat:
  assumes "n \<le> 2 ^ 53"
  shows "round_double (of_nat n) = Fin (of_nat n)"
proof -
  from assms have "int n \<le> int (2 ^ 53)" by (rule of_nat_mono)
  then have "\<bar>int n\<bar> \<le> 2 ^ 53" by simp
  from round_double_of_int[OF this] show ?thesis by simp
qed

text \<open>The double nearest to a real that is known by bounds.\<close>

lemma binary_exponent_unique:
  assumes "power_int 2 e \<le> x" "x < power_int 2 (e + 1)"
  shows "binary_exponent x = e"
proof -
  have pos: "0 < x" using assms(1) by (smt (verit) zero_less_power_int)
  from binary_exponent_bounds[OF pos]
  have b: "power_int 2 (binary_exponent x) \<le> x" "x < power_int 2 (binary_exponent x + 1)"
    by simp_all
  have "\<not> binary_exponent x < e"
  proof
    assume "binary_exponent x < e"
    then have "power_int (2::real) (binary_exponent x + 1) \<le> power_int 2 e"
      by (intro power_int_increasing) simp_all
    with b assms show False by linarith
  qed
  moreover have "\<not> e < binary_exponent x"
  proof
    assume "e < binary_exponent x"
    then have "power_int (2::real) (e + 1) \<le> power_int 2 (binary_exponent x)"
      by (intro power_int_increasing) simp_all
    with b assms show False by linarith
  qed
  ultimately show ?thesis by simp
qed

lemma round_half_even_near:
  assumes "of_int m - 1 / 2 < y" "y < of_int m + 1 / 2"
  shows "round_half_even y = m"
proof (cases "of_int m \<le> y")
  case True
  then have f: "\<lfloor>y\<rfloor> = m" using assms by (simp add: floor_eq_iff)
  show ?thesis using assms by (simp add: round_half_even_def f Let_def)
next
  case False
  then have f: "\<lfloor>y\<rfloor> = m - 1" using assms by (simp add: floor_eq_iff)
  show ?thesis using assms False by (simp add: round_half_even_def f Let_def)
qed

lemma round_double_near:
  assumes e: "power_int 2 e \<le> x" "x < power_int 2 (e + 1)" "- 1022 \<le> e" "e \<le> 1022"
    and m: "of_int m - 1 / 2 < x * power_int 2 (52 - e)" "x * power_int 2 (52 - e) < of_int m + 1 / 2"
  shows "round_double x = Fin (of_int m * power_int 2 (e - 52))"
proof -
  have pos: "0 < x" using e(1) by (smt (verit) zero_less_power_int)
  have be: "binary_exponent \<bar>x\<bar> = e" using binary_exponent_unique[OF e(1,2)] pos by simp
  have r: "round_half_even (\<bar>x\<bar> * power_int 2 (52 - e)) = m"
    using round_half_even_near[OF m] pos by simp
  have "x * power_int 2 (52 - e) < power_int 2 (e + 1) * power_int 2 (52 - e)"
    using e(2) by (intro mult_strict_right_mono) simp_all
  also have "\<dots> = 2 ^ 53" by (simp flip: power_int_add)
  finally have "of_int m < (2::real) ^ 53 + 1 / 2" using m(1) by linarith
  then have "of_int m \<le> (2::real) ^ 53"
  proof -
    have "of_int m < (of_int (2 ^ 53 + 1) :: real)" using \<open>of_int m < (2::real) ^ 53 + 1 / 2\<close> by simp
    then have "m < 2 ^ 53 + 1" by (simp only: of_int_less_iff)
    then have "m \<le> 2 ^ 53" by simp
    then have "(of_int m :: real) \<le> of_int (2 ^ 53)" by (simp only: of_int_le_iff)
    then show ?thesis by simp
  qed
  moreover have "power_int (2::real) (e - 52) \<le> power_int 2 970"
    using e(4) by (intro power_int_increasing) simp_all
  moreover have "0 \<le> (of_int m :: real)"
  proof -
    have "0 < x * power_int 2 (52 - e)" using pos by simp
    with m(2) have "(- 1 / 2 :: real) < of_int m" by linarith
    then have "(of_int (- 1) :: real) < of_int m" by simp
    then have "- 1 < m" by (simp only: of_int_less_iff)
    then show ?thesis by simp
  qed
  ultimately have "of_int m * power_int (2::real) (e - 52) \<le> 2 ^ 53 * power_int 2 970"
    by (intro mult_mono) simp_all
  also have "\<dots> = 2 ^ 1023" by simp
  also have "\<dots> < (2::real) ^ 1024" by simp
  finally have big: "\<not> (2::real) ^ 1024 \<le> of_int m * power_int 2 (e - 52)" by simp
  have mx: "max e (- 1022) = e" using e(3) by simp
  show ?thesis
    unfolding round_double_def Let_def be mx r using big pos by simp
qed


text \<open>Evaluation of the rounding on concrete numbers.\<close>

lemmas num_eval = round_double_def binary_exponent.simps round_half_even_def Let_def

lemma to_number_JNum: "to_number rt (JNum n) = Inr n"
  by (simp add: to_number_def bind_err_def)

lemma to_string_JStr: "to_string rt (JStr s) = Inr s"
  by (simp add: to_string_def bind_err_def)

lemma to_string_JNum: "to_string rt (JNum n) = Inr (number_to_string rt n)"
  by (simp add: to_string_def bind_err_def)

lemma to_primitive_error:
  "to_primitive rt v = Inl e \<Longrightarrow> e = TypeError"
  "element_strings rt vs = Inl e \<Longrightarrow> e = TypeError"
  by (induction rt v and rt vs rule: to_primitive_element_strings.induct)
    (auto split: sum.splits if_splits)

lemma to_string_error: "to_string rt v = Inl e \<Longrightarrow> e = TypeError"
  by (auto simp: to_string_def bind_err_def to_primitive_error split: sum.splits)

lemma to_number_error: "to_number rt v = Inl e \<Longrightarrow> e = TypeError"
  by (auto simp: to_number_def bind_err_def to_primitive_error split: sum.splits)

lemma js_add_JNum: "js_add rt (JNum a) (JNum b) = Inr (JNum (num_add a b))"
  by (simp add: js_add_def bind_err_def is_str_def)

lemma abs_by_sign_num: "abs_by_sign rt (JNum w) = Inr (JNum (num_abs w))"
  by (cases w) (auto simp: abs_by_sign_def to_number_JNum bind_err_def)

lemma abs_by_sign_error: "abs_by_sign rt v = Inl e \<Longrightarrow> e = TypeError"
  by (auto simp: abs_by_sign_def bind_err_def to_number_error split: sum.splits if_splits)

section \<open>Lemmas about the entity store\<close>

lemma show_nat_digit: "n < 10 \<Longrightarrow> show_nat n = [digit_char n]"
  by (simp add: show_nat.simps)

lemma get_prop_set_prop_other:
  "name \<noteq> name' \<Longrightarrow> get_prop (set_prop ps name v) name' = get_prop (JObj ps) name'"
  by (simp add: set_prop_def update_conv')

lemma get_prop_set_prop_same:
  "get_prop (set_prop ps name v) name = Inr v"
  by (simp add: set_prop_def update_conv')

lemma validate_vertex_Inr:
  assumes "validate_vertex rt entity = Inr entity'"
  shows "\<exists>ps c p w x. entity = JObj ps \<and> map_of ps ''valueArray'' = Some (JArr [c, p, JNum w, x])
           \<and> w \<noteq> NaN \<and> entity' = set_prop ps ''proximityPadding'' (JNum (num_abs w))"
  using assms
  apply (cases entity)
  apply (auto simp: validate_vertex_def bind_err_def is_number_def abs_by_sign_num
        split: jsval.splits list.splits if_splits option.splits sum.splits)
  done

lemma validateEntity_Cubes: "db s \<noteq> None \<Longrightarrow> validateEntity rt s e ''Cubes'' = Inr e"
  by (simp add: validateEntity_def)

lemma validate_subcube_Inr:
  "validate_subcube entity = Inr entity' \<Longrightarrow> entity' = entity \<and> (\<exists>ps. entity = JObj ps)"
  by (cases entity) (auto simp: validate_subcube_def bind_err_def split: if_splits)

lemma validate_matrix_Inr:
  "validate_matrix entity = Inr entity' \<Longrightarrow> entity' = entity"
  by (auto simp: validate_matrix_def bind_err_def split: if_splits sum.splits)

lemma validateEntity_Inr:
  assumes "validateEntity rt s entity storeName = Inr entity'"
  shows "db s \<noteq> None \<and>
         (if vertex_store storeName
          then \<exists>ps c p w x. entity = JObj ps \<and> map_of ps ''valueArray'' = Some (JArr [c, p, JNum w, x])
                 \<and> w \<noteq> NaN \<and> entity' = set_prop ps ''proximityPadding'' (JNum (num_abs w))
          else entity' = entity)"
  using assms validate_vertex_Inr[of rt entity entity'] validate_subcube_Inr[of entity entity']
    validate_matrix_Inr[of entity entity']
  by (auto simp: validateEntity_def vertex_store_def split: if_splits)

lemma key_path_not_padding: "key_path storeName = Some path \<Longrightarrow> path \<noteq> ''proximityPadding''"
  by (auto simp: key_path_def split: if_splits)

lemma extract_key_set_prop:
  "path \<noteq> name \<Longrightarrow> extract_key path (set_prop ps name v) = extract_key path (JObj ps)"
  by (simp add: extract_key_def set_prop_def update_conv')

lemma extract_key_valid: "extract_key path v = Inr k \<Longrightarrow> valid_key k"
  by (auto simp: extract_key_def split: jsval.splits option.splits if_splits)

lemma save_Inr:
  assumes "save rt s entity storeName = (Inr u, s')"
  shows "\<exists>entity' d path k. validateEntity rt s entity storeName = Inr entity' \<and> db s = Some d
           \<and> key_path storeName = Some path \<and> extract_key path entity' = Inr k
           \<and> s' = s\<lparr>db := Some (d(storeName := (d storeName)(k \<mapsto> entity')))\<rparr>"
  using assms
  by (auto simp: save_def put_def bind_err_def split: sum.splits option.splits)

lemma blendBackground_spec_exact:
  assumes "round_double (b + i) = Fin (b + i)" "round_double (b + i + a) = Fin (b + i + a)"
  shows "blendBackground_spec (Fin b) (Fin i) (Fin a) = Fin (min 255 (b + i + a))"
  using assms by (simp add: blendBackground_spec_def num_min_def min_def)

lemma background_channel_num:
  assumes "get_index color1 k = Inr (JNum b)" "get_index color2 k = Inr (JNum i)"
    "get_index ambient k = Inr (JNum a)"
  shows "background_channel rt color1 color2 ambient k = Inr (JNum (blendBackground_spec b i a))"
  using assms
  by (simp add: background_channel_def bind_err_def js_add_JNum to_number_JNum
      blendBackground_spec_def)

lemmas eval_simps = number_to_string_def show_int_def show_nat.simps digit_char_def
  bind_err_def example_runtime_def fresh_storage_def to_string_def to_number_def

lemma printable_iff: "printable rt v = (to_string rt v \<noteq> Inl TypeError)"
  using to_string_error[of rt v] by (auto simp: printable_def split: sum.splits)





lemma validate_red_corner:
  "validateEntity example_runtime fresh_storage (red_corner []) ''CubeVertices''
     = Inr (red_corner [JNum (Fin 2)])"
  by (simp add: validateEntity_def validate_vertex_def red_corner_def color_invalid_def
      color_out_of_range_def array_of_length_def is_number_def is_string_def set_prop_def
      abs_by_sign_def eval_simps)

lemma put_red_corner:
  "put (\<lambda>storeName. Map.empty) ''CubeVertices'' (red_corner [JNum (Fin 2)])
     = Inr ((\<lambda>storeName. Map.empty)
              (''CubeVertices'' := [JStr ''1vrtx0'' \<mapsto> red_corner [JNum (Fin 2)]]))"
  by (simp add: put_def key_path_def extract_key_def red_corner_def bind_err_def)

lemma save_red_corner:
  "save example_runtime fresh_storage (red_corner []) ''CubeVertices''
     = (Inr (), fresh_storage\<lparr>db := Some ((\<lambda>storeName. Map.empty)
              (''CubeVertices'' := [JStr ''1vrtx0'' \<mapsto> red_corner [JNum (Fin 2)]]))\<rparr>)"
proof -
  have dbs: "db fresh_storage = Some (\<lambda>storeName. Map.empty)" by (simp add: fresh_storage_def)
  show ?thesis
    by (simp add: save_def validate_red_corner check_origin_def dbs put_red_corner)
qed

lemma validate_stale_vertex:
  "validateEntity example_runtime fresh_storage stale_vertex ''SubcubeVertices''
     = Inr (stored_vertex (JNum (Fin (- 1 / 2))) (JNum (Fin (1 / 2))))"
  by (simp add: validateEntity_def validate_vertex_def stale_vertex_def stored_vertex_def
      color_invalid_def origin_3_def
      color_out_of_range_def array_of_length_def is_number_def is_string_def set_prop_def
      abs_by_sign_def eval_simps)

lemma check_origin_stored_vertex:
  "check_origin example_runtime (stored_vertex w p) ''SubcubeVertices'' = Inr True"
  by (simp add: check_origin_def validateOriginID_def stored_vertex_def eval_simps)

lemma put_stored_vertex:
  "put (\<lambda>storeName. Map.empty) ''SubcubeVertices'' (stored_vertex w p)
     = Inr ((\<lambda>storeName. Map.empty)
              (''SubcubeVertices'' := [JStr ''AAv0'' \<mapsto> stored_vertex w p]))"
  by (simp add: put_def key_path_def extract_key_def stored_vertex_def bind_err_def)

lemma save_stale_vertex:
  "save example_runtime fresh_storage stale_vertex ''SubcubeVertices''
     = (Inr (), fresh_storage\<lparr>db := Some ((\<lambda>storeName. Map.empty)
              (''SubcubeVertices'' :=
                 [JStr ''AAv0'' \<mapsto> stored_vertex (JNum (Fin (- 1 / 2))) (JNum (Fin (1 / 2)))]))\<rparr>)"
proof -
  have dbs: "db fresh_storage = Some (\<lambda>storeName. Map.empty)" by (simp add: fresh_storage_def)
  show ?thesis
    by (simp add: save_def validate_stale_vertex check_origin_stored_vertex dbs put_stored_vertex)
qed

lemma latest_Cons: "latest path (e # es) = [key_or_undefined path e \<mapsto> e] ++ latest path es"
  by (simp add: latest_def)

lemma latest_Nil: "latest path [] = Map.empty"
  by (simp add: latest_def)

lemma map_add_latest_Cons:
  "m ++ latest path (e # es) = m(key_or_undefined path e \<mapsto> e) ++ latest path es"
  by (rule ext) (simp add: latest_def map_add_def split: option.splits)

lemma place_put_keyed:
  assumes "thrown pr = None" "key_path storeName = Some path" "keyed path e"
  shows "thrown (place_put storeName pr e) = None"
    and "placed (place_put storeName pr e) = Suc (placed pr)"
    and "content (place_put storeName pr e)
         = (content pr)(storeName := (content pr storeName)(key_or_undefined path e \<mapsto> e))"
  using assms
  by (auto simp: place_put_def put_def bind_err_def keyed_def key_or_undefined_def split: sum.splits)

lemma foldl_place_put_keyed:
  assumes "thrown pr = None" "key_path storeName = Some path" "list_all (keyed path) es"
  shows "thrown (foldl (place_put storeName) pr es) = None
       \<and> placed (foldl (place_put storeName) pr es) = placed pr + length es
       \<and> content (foldl (place_put storeName) pr es)
           = (content pr)(storeName := content pr storeName ++ latest path es)"
  using assms
proof (induction es arbitrary: pr)
  case Nil
  then show ?case by (simp add: latest_Nil)
next
  case (Cons e es)
  let ?pr' = "place_put storeName pr e"
  note st = place_put_keyed[of pr storeName path e]
  have "thrown (foldl (place_put storeName) ?pr' es) = None
       \<and> placed (foldl (place_put storeName) ?pr' es) = placed ?pr' + length es
       \<and> content (foldl (place_put storeName) ?pr' es)
           = (content ?pr')(storeName := content ?pr' storeName ++ latest path es)"
    using Cons.prems by (intro Cons.IH) (simp_all add: st)
  then show ?case
    using Cons.prems by (simp add: st map_add_latest_Cons)
qed

lemma total_operations_entities:
  assumes props: "get_prop cubeData ''subcubes'' = Inr sc"
      "get_prop cubeData ''subcubeVertices'' = Inr sv" "get_prop cubeData ''cubeVertices'' = Inr cv"
    and lists: "announced sc = JNum (Fin (of_nat a))" "announced sv = JNum (Fin (of_nat b))"
      "announced cv = JNum (Fin (of_nat c))"
    and small: "a < 2 ^ 32" "b < 2 ^ 32" "c < 2 ^ 32"
  shows "total_operations rt cubeData = Inr (JNum (Fin (of_nat (Suc (a + b + c)))))"
proof -
  have p: "(2::nat) ^ 32 * 4 \<le> 2 ^ 53" by simp
  have r1: "round_double (1 + real a) = Fin (real (Suc a))"
    using round_double_of_nat[of "Suc a"] small p by (simp add: add.commute)
  have r2: "round_double (real (Suc a) + real b) = Fin (real (Suc (a + b)))"
    using round_double_of_nat[of "Suc (a + b)"] small p by (simp add: add.commute add.left_commute)
  have r3: "round_double (real (Suc (a + b)) + real c) = Fin (real (Suc (a + b + c)))"
    using round_double_of_nat[of "Suc (a + b + c)"] small p
    by (simp add: add.commute add.left_commute)
  show ?thesis
    unfolding total_operations_def
    by (simp only: props lists bind_err_def sum.case js_add_JNum num_add.simps r1 r2 r3)
qed

lemma entities_announced:
  "entities xs = Some es \<Longrightarrow> announced xs = JNum (Fin (of_nat (length es)))"
  by (cases xs) (auto simp: entities_def announced_def split: if_splits)

lemma place_all_keyed:
  assumes "thrown pr = None" "key_path storeName = Some path" "entities xs = Some es"
    "list_all (keyed path) es"
  shows "thrown (place_all rt storeName pr xs) = None
       \<and> placed (place_all rt storeName pr xs) = placed pr + length es
       \<and> content (place_all rt storeName pr xs)
           = (content pr)(storeName := content pr storeName ++ latest path es)"
proof (cases xs)
  case (JArr ys)
  with assms(3) have ys: "ys = es" by (simp add: entities_def)
  show ?thesis
  proof (cases "es = []")
    case True
    then show ?thesis using assms(1) by (simp add: place_all_def JArr ys latest_Nil to_number_JNum)
  next
    case False
    then show ?thesis
      using foldl_place_put_keyed[OF assms(1,2,4)] assms(1)
      by (simp add: place_all_def JArr ys to_number_JNum)
  qed
qed (use assms in \<open>auto simp: entities_def place_all_def latest_Nil split: if_splits\<close>)

lemma latest_member:
  assumes "e \<in> set es"
  shows "\<exists>e'\<in>set es. key_or_undefined path e' = key_or_undefined path e
           \<and> latest path es (key_or_undefined path e) = Some e'"
proof -
  let ?ps = "rev (map (\<lambda>e. (key_or_undefined path e, e)) es)"
  have "key_or_undefined path e \<in> fst ` set ?ps" using assms by force
  then obtain e' where m: "map_of ?ps (key_or_undefined path e) = Some e'"
    by (meson domD domI map_of_eq_None_iff not_None_eq)
  from map_of_SomeD[OF m] have "e' \<in> set es" "key_or_undefined path e' = key_or_undefined path e"
    by auto
  with m show ?thesis by (auto simp: latest_def)
qed

lemma keyed_valid: "keyed path e \<Longrightarrow> valid_key (key_or_undefined path e)"
  by (auto simp: keyed_def key_or_undefined_def extract_key_valid split: sum.splits)

lemma latest_last:
  "latest path es k
   = (case filter (\<lambda>e. key_or_undefined path e = k) es of [] \<Rightarrow> None | e # xs \<Rightarrow> Some (last (e # xs)))"
proof (induction es)
  case Nil
  then show ?case by (simp add: latest_Nil)
next
  case (Cons e es)
  show ?case
    by (simp add: latest_Cons map_add_def Cons.IH split: list.splits)
qed

lemma updateCubeHierarchy_content:
  assumes d: "db s = Some d"
    and props: "get_prop cubeData ''cube'' = Inr cube" "get_prop cubeData ''subcubes'' = Inr sc"
      "get_prop cubeData ''subcubeVertices'' = Inr sv" "get_prop cubeData ''cubeVertices'' = Inr cv"
    and lists: "entities sc = Some scs" "entities sv = Some svs" "entities cv = Some cvs"
    and small: "length scs < 2 ^ 32" "length svs < 2 ^ 32" "length cvs < 2 ^ 32"
    and keys: "keyed ''id'' cube" "list_all (keyed ''id'') scs" "list_all (keyed ''id'') svs"
      "list_all (keyed ''vertexID'') cvs"
  shows "updateCubeHierarchy rt s cubeData
         = (Resolved,
            s\<lparr>db := Some (d(''Cubes'' := (d ''Cubes'')(key_or_undefined ''id'' cube \<mapsto> cube),
                            ''Subcubes'' := d ''Subcubes'' ++ latest ''id'' scs,
                            ''SubcubeVertices'' := d ''SubcubeVertices'' ++ latest ''id'' svs,
                            ''CubeVertices'' := d ''CubeVertices'' ++ latest ''vertexID'' cvs))\<rparr>)"
proof -
  define p0 where "p0 = \<lparr> thrown = None, content = d, placed = 0 \<rparr>"
  define p1 where "p1 = place_put ''Cubes'' p0 cube"
  define p2 where "p2 = place_all rt ''Subcubes'' p1 sc"
  define p3 where "p3 = place_all rt ''SubcubeVertices'' p2 sv"
  define p4 where "p4 = place_all rt ''CubeVertices'' p3 cv"
  have kp: "key_path ''Cubes'' = Some ''id''" "key_path ''Subcubes'' = Some ''id''"
    "key_path ''SubcubeVertices'' = Some ''id''" "key_path ''CubeVertices'' = Some ''vertexID''"
    by (simp_all add: key_path_def)
  have t0: "thrown p0 = None" by (simp add: p0_def)
  note f1 = place_put_keyed[OF t0 kp(1) keys(1), folded p1_def]
  note f2 = place_all_keyed[OF f1(1) kp(2) lists(1) keys(2), of rt, folded p2_def]
  note f3 = place_all_keyed[OF conjunct1[OF f2] kp(3) lists(2) keys(3), of rt, folded p3_def]
  note f4 = place_all_keyed[OF conjunct1[OF f3] kp(4) lists(3) keys(4), of rt, folded p4_def]
  have pl: "placed p4 = Suc (length scs + length svs + length cvs)"
    using f1 f2 f3 f4 by (simp add: p0_def)
  have ct: "content p4 = d(''Cubes'' := (d ''Cubes'')(key_or_undefined ''id'' cube \<mapsto> cube),
                            ''Subcubes'' := d ''Subcubes'' ++ latest ''id'' scs,
                            ''SubcubeVertices'' := d ''SubcubeVertices'' ++ latest ''id'' svs,
                            ''CubeVertices'' := d ''CubeVertices'' ++ latest ''vertexID'' cvs)"
    using f1 f2 f3 f4 by (simp add: p0_def)
  have th: "thrown p4 = None" using f4 by simp
  have total: "total_operations rt cubeData = Inr (JNum (Fin (of_nat (placed p4))))"
    using total_operations_entities[OF props(2-4) entities_announced[OF lists(1)]
        entities_announced[OF lists(2)] entities_announced[OF lists(3)] small, of rt]
    by (simp only: pl)
  have ex: "list_ex (\<lambda>k. JNum (Fin (of_nat (placed p4))) = JNum (Fin (of_nat k)))
      [1 ..< Suc (placed p4)]"
  proof -
    have "Suc 0 \<le> placed p4" by (simp add: pl)
    then have "placed p4 \<in> set [1 ..< Suc (placed p4)]" by simp
    then show ?thesis unfolding list_ex_iff by blast
  qed
  show ?thesis
    unfolding updateCubeHierarchy_def
    using pl by (simp add: d props bind_err_def Let_def total ex th ct
        p0_def[symmetric] p1_def[symmetric] p2_def[symmetric] p3_def[symmetric] p4_def[symmetric])
qed

lemma sample_bundle_props:
  "get_prop sample_bundle ''cube'' = Inr bright_cube"
  "get_prop sample_bundle ''subcubes'' = Inr (JArr [subcube_AA origin_3 (JStr ''11'')])"
  "get_prop sample_bundle ''subcubeVertices'' = Inr (JArr [model_vertex])"
  "get_prop sample_bundle ''cubeVertices'' = Inr (JArr [red_vertex])"
  by (simp_all add: sample_bundle_def)

lemma sample_bundle_keys:
  "key_or_undefined ''id'' bright_cube = JNum (Fin 1)"
  "key_or_undefined ''id'' (subcube_AA origin_3 (JStr ''11'')) = JStr ''AA''"
  "key_or_undefined ''id'' model_vertex = JStr ''AAv0''"
  "key_or_undefined ''vertexID'' red_vertex = JStr ''1vrtx0''"
  by (simp_all add: key_or_undefined_def extract_key_def bright_cube_def subcube_AA_def
      Subcube_def model_vertex_def red_vertex_def CubeVertex_def)

lemma sample_bundle_keyed:
  "keyed ''id'' bright_cube"
  "list_all (keyed ''id'') [subcube_AA origin_3 (JStr ''11'')]"
  "list_all (keyed ''id'') [model_vertex]"
  "list_all (keyed ''vertexID'') [red_vertex]"
  by (simp_all add: keyed_def extract_key_def bright_cube_def subcube_AA_def
      Subcube_def model_vertex_def red_vertex_def CubeVertex_def)

lemma sample_bundle_entities:
  "entities (JArr es) = Some es"
  by (simp add: entities_def)

lemma db_fresh_storage: "db fresh_storage = Some (\<lambda>storeName. Map.empty)"
  by (simp add: fresh_storage_def)

section \<open>Lemmas about the blend strategies and the painter\<close>

lemma BlendCornerByProximity_throws:
  "BlendCornerByProximity rt color1 color2 params
     = Inl (case get_prop params ''weight'' of
              Inl e \<Rightarrow> TypeError
            | Inr weight \<Rightarrow>
                (case to_number rt weight of
                   Inl e \<Rightarrow> TypeError
                 | Inr w \<Rightarrow> ReferenceError ''distanceToSubject''))"
proof (cases "get_prop params ''weight''")
  case (Inl e)
  then show ?thesis
    by (cases params) (simp_all add: BlendCornerByProximity_def bind_err_def)
next
  case (Inr weight)
  then have a: "\<exists>ambient. get_prop params ''ambient'' = Inr ambient"
    by (cases params) simp_all
  show ?thesis
  proof (cases "to_number rt weight")
    case (Inl e)
    then have "abs_by_sign rt weight = Inl TypeError"
      using to_number_error[OF Inl] by (simp add: abs_by_sign_def bind_err_def)
    with a Inr Inl show ?thesis by (auto simp: BlendCornerByProximity_def bind_err_def)
  next
    case w: (Inr w)
    then have "\<exists>padding. abs_by_sign rt weight = Inr padding"
      by (simp add: abs_by_sign_def bind_err_def)
    with a Inr w show ?thesis by (auto simp: BlendCornerByProximity_def bind_err_def)
  qed
qed

lemma BlendCornerByProximity_fails: "\<exists>e. BlendCornerByProximity rt color1 color2 params = Inl e"
  by (simp add: BlendCornerByProximity_throws)

lemma blend_corner_throws:
  assumes "to_string rt proximity = Inr ''BlendCornerByProximity''"
  shows "\<exists>e. blend rt p color1 color2 (JObj [(''weight'', weight), (''proximity'', proximity)])
           = Inl e"
  using assms BlendCornerByProximity_fails
  by (simp add: blend_def bind_err_def blendingFunctions_def)

lemma blend_unknown_falls_back:
  assumes "to_string rt proximity = Inr key"
    and "key \<notin> {''BlendCornerByProximity'', ''BlendVrtxByWeight'', ''blendBackground''}"
    and "key \<notin> set object_prototype_names"
  shows "blend rt p color1 color2 (JObj [(''weight'', weight), (''proximity'', proximity)])
           = blendBackground rt color1 color2
               (JObj [(''weight'', weight), (''ambient'', ambientValue p)])"
  using assms by (simp add: blend_def bind_err_def blendingFunctions_def)

lemma process_vertex_corner:
  assumes "resolves_to rt maxDepth vertex ''BlendCornerByProximity''"
  shows "\<exists>e. process_vertex rt maxDepth isBackground p vertex = Inl e"
proof -
  from assms obtain x y z where
    xyz: "vertex_xyz vertex = Inr (x, y, z)"
    and r1: "case to_number rt z of Inl e \<Rightarrow> False
             | Inr depthOfVertex \<Rightarrow> num_le depthOfVertex (num_add maxDepth (Fin 1))"
    and r2: "case vertex_blend_logic vertex of Inl e \<Rightarrow> False
             | Inr blendLogic \<Rightarrow> to_string rt blendLogic = Inr ''BlendCornerByProximity''"
    by (cases "vertex_xyz vertex") (auto simp: resolves_to_def)
  from r1 obtain depthOfVertex where
    dep: "to_number rt z = Inr depthOfVertex"
    and inc: "num_le depthOfVertex (num_add maxDepth (Fin 1))"
    by (cases "to_number rt z") auto
  from r2 obtain blendLogic where
    bl: "vertex_blend_logic vertex = Inr blendLogic"
    and key: "to_string rt blendLogic = Inr ''BlendCornerByProximity''"
    by (cases "vertex_blend_logic vertex") auto
  have b: "\<exists>e. blend rt p1 c1 c2 (JObj [(''weight'', weight), (''proximity'', blendLogic)]) = Inl e"
    for p1 c1 c2 weight
    by (rule blend_corner_throws[OF key])
  show ?thesis
  proof (cases "bin_key rt p isBackground x y z")
    case (Inl e)
    then show ?thesis by (simp add: process_vertex_def xyz bind_err_def)
  next
    case (Inr binKey)
    show ?thesis
    proof (cases "touch_bin p binKey z")
      case (Inl e)
      then show ?thesis by (simp add: process_vertex_def xyz Inr bind_err_def)
    next
      case p1: (Inr p1)
      show ?thesis
      proof (cases "map_of (bins p1) binKey")
        case None
        then show ?thesis by (simp add: process_vertex_def xyz Inr p1 dep inc bl bind_err_def)
      next
        case (Some bn)
        show ?thesis
        proof (cases "vertex_field vertex 0")
          case (Inl e)
          then show ?thesis
            by (simp add: process_vertex_def xyz Inr p1 dep inc bl Some bind_err_def)
        next
          case c2: (Inr color2)
          show ?thesis
          proof (cases "vertex_field vertex 2")
            case (Inl e)
            then show ?thesis
              by (simp add: process_vertex_def xyz Inr p1 dep inc bl Some c2 bind_err_def)
          next
            case w: (Inr weight)
            from b[of p1 "color bn" color2 weight] obtain e where
              "blend rt p1 (color bn) color2 (JObj [(''weight'', weight), (''proximity'', blendLogic)])
                 = Inl e" by blast
            then show ?thesis
              by (simp add: process_vertex_def xyz Inr p1 dep inc bl Some c2 w bind_err_def)
          qed
        qed
      qed
    qed
  qed
qed

lemma process_vertices_fail:
  assumes "vertex \<in> set vs"
    and "\<And>p. \<exists>e. process_vertex rt maxDepth isBackground p vertex = Inl e"
  shows "\<exists>e. process_vertices rt maxDepth isBackground p vs = Inl e"
  using assms(1)
proof (induction vs arbitrary: p)
  case Nil
  then show ?case by simp
next
  case (Cons v vs)
  show ?case
  proof (cases "process_vertex rt maxDepth isBackground p v")
    case (Inl e)
    then show ?thesis by (simp add: bind_err_def)
  next
    case (Inr p')
    with assms(2)[of p] have "v \<noteq> vertex" by auto
    with Cons.prems have "vertex \<in> set vs" by simp
    from Cons.IH[OF this, of p'] show ?thesis by (simp add: Inr bind_err_def)
  qed
qed

lemma process_items_fail:
  assumes "item \<in> set items"
    and "bind_err (item_vertices item) iterate = Inr vs"
    and "vertex \<in> set vs"
    and "\<And>p. \<exists>e. process_vertex rt maxDepth isBackground p vertex = Inl e"
  shows "\<exists>e. process_items rt maxDepth isBackground p items = Inl e"
  using assms(1)
proof (induction items arbitrary: p)
  case Nil
  then show ?case by simp
next
  case (Cons i items)
  show ?case
  proof (cases "i = item")
    case True
    from assms(2) obtain vertices where
      "item_vertices item = Inr vertices" "iterate vertices = Inr vs"
      by (auto simp: bind_err_def split: sum.splits)
    moreover from process_vertices_fail[OF assms(3,4)] obtain e where
      "process_vertices rt maxDepth isBackground p vs = Inl e" by blast
    ultimately show ?thesis by (simp add: True bind_err_def)
  next
    case False
    with Cons.prems have "item \<in> set items" by simp
    from Cons.IH[OF this] show ?thesis
      by (auto simp: bind_err_def split: sum.splits)
  qed
qed

section \<open>Lemmas about the spatial index\<close>

text \<open>
  The keys of the cells: a key determines the first coordinate of its cell, as long as
  integers are printed digit by digit.
\<close>

lemma digit_char_inj:
  assumes "d < 10" "e < 10" "digit_char d = digit_char e"
  shows "d = e"
proof -
  have dist: "distinct ''0123456789''" by simp
  have len: "length ''0123456789'' = 10" by simp
  from assms show ?thesis
    unfolding digit_char_def using nth_eq_iff_index_eq[OF dist, of d e] len by simp
qed

lemma digit_char_digit:
  assumes "d < 10"
  shows "digit_char d \<in> set ''0123456789''"
  unfolding digit_char_def using assms nth_mem[of d "''0123456789''"] by simp

lemma show_nat_digits: "set (show_nat n) \<subseteq> set ''0123456789''"
proof (induction n rule: show_nat.induct)
  case (1 n)
  show ?case
  proof (cases "n < 10")
    case True
    then show ?thesis using digit_char_digit[of n] by (subst show_nat.simps) simp
  next
    case False
    have "n mod 10 < 10" by simp
    from digit_char_digit[OF this] 1[OF False] False show ?thesis
      by (subst show_nat.simps) simp
  qed
qed

lemma show_nat_nonempty: "show_nat n \<noteq> []"
  by (subst show_nat.simps) simp

lemma show_nat_inj: "show_nat m = show_nat n \<Longrightarrow> m = n"
proof (induction m arbitrary: n rule: show_nat.induct)
  case (1 m)
  show ?case
  proof (cases "m < 10")
    case True
    note m = this
    show ?thesis
    proof (cases "n < 10")
      case True
      with m "1.prems" show ?thesis
        by (simp add: show_nat.simps[of m] show_nat.simps[of n] digit_char_inj)
    next
      case False
      with m "1.prems" show_nat_nonempty[of "n div 10"] show ?thesis
        by (simp add: show_nat.simps[of m] show_nat.simps[of n])
    qed
  next
    case False
    note m = this
    show ?thesis
    proof (cases "n < 10")
      case True
      with m "1.prems" show_nat_nonempty[of "m div 10"] show ?thesis
        by (simp add: show_nat.simps[of m] show_nat.simps[of n])
    next
      case False
      with m "1.prems" have eq: "show_nat (m div 10) = show_nat (n div 10)"
        and dg: "digit_char (m mod 10) = digit_char (n mod 10)"
        by (simp_all add: show_nat.simps[of m] show_nat.simps[of n])
      from "1.IH"[OF m eq] have "m div 10 = n div 10" .
      moreover from digit_char_inj[OF _ _ dg] have "m mod 10 = n mod 10" by simp
      ultimately show ?thesis by (metis div_mult_mod_eq)
    qed
  qed
qed

lemma show_nat_no_minus: "show_nat n \<noteq> CHR ''-'' # s"
proof
  assume "show_nat n = CHR ''-'' # s"
  then have "CHR ''-'' \<in> set (show_nat n)" by simp
  with show_nat_digits[of n] show False by auto
qed

lemma show_int_inj:
  assumes "show_int i = show_int j"
  shows "i = j"
proof (cases "i < 0")
  case True
  note i = this
  show ?thesis
  proof (cases "j < 0")
    case True
    with i assms have "show_nat (nat (- i)) = show_nat (nat (- j))" by (simp add: show_int_def)
    from show_nat_inj[OF this] i True show ?thesis by simp
  next
    case False
    with i assms show_nat_no_minus[of "nat j" "show_nat (nat (- i))"] show ?thesis
      by (simp add: show_int_def)
  qed
next
  case False
  note i = this
  show ?thesis
  proof (cases "j < 0")
    case True
    with i assms show_nat_no_minus[of "nat i" "show_nat (nat (- j))"] show ?thesis
      by (simp add: show_int_def)
  next
    case False
    with i assms have "show_nat (nat i) = show_nat (nat j)" by (simp add: show_int_def)
    from show_nat_inj[OF this] i False show ?thesis by simp
  qed
qed

lemma show_int_no_comma: "CHR '','' \<notin> set (show_int i)"
proof -
  have "CHR '','' \<notin> set (show_nat n)" for n using show_nat_digits[of n] by auto
  then show ?thesis by (simp add: show_int_def)
qed

lemma comma_split:
  assumes "CHR '','' \<notin> set a" "CHR '','' \<notin> set a'" "a @ CHR '','' # r = a' @ CHR '','' # r'"
  shows "a = a' \<and> r = r'"
  using assms
proof (induction a arbitrary: a')
  case Nil
  then show ?case by (cases a') auto
next
  case (Cons x a)
  then show ?case by (cases a') auto
qed

lemma number_to_string_int:
  assumes "\<bar>i\<bar> \<le> 2 ^ 53"
  shows "number_to_string rt (Fin (of_int i)) = show_int i"
proof -
  have "\<bar>real_of_int i\<bar> \<le> 2 ^ 53"
  proof -
    have "real_of_int \<bar>i\<bar> \<le> real_of_int (2 ^ 53)" using assms by (simp only: of_int_le_iff)
    then show ?thesis by simp
  qed
  then show ?thesis by (simp add: number_to_string_def)
qed

lemma key_of_other_cell:
  assumes "\<bar>x\<bar> \<le> 2 ^ 53" "\<bar>y\<bar> \<le> 2 ^ 53" "\<bar>z\<bar> \<le> 2 ^ 53" "x \<noteq> 25"
  shows "getBinKey rt (Fin (of_int x), Fin (of_int y), Fin (of_int z)) \<noteq> ''25,0,0''"
proof
  assume eq: "getBinKey rt (Fin (of_int x), Fin (of_int y), Fin (of_int z)) = ''25,0,0''"
  have s: "show_int 25 = ''25''" by (simp add: show_int_def show_nat.simps digit_char_def)
  note k = number_to_string_int[OF assms(1), of rt] number_to_string_int[OF assms(2), of rt]
    number_to_string_int[OF assms(3), of rt]
  from eq have "show_int x @ CHR '','' # (show_int y @ CHR '','' # show_int z)
      = show_int 25 @ CHR '','' # ''0,0''"
    by (simp add: getBinKey_def k s)
  from comma_split[OF show_int_no_comma show_int_no_comma this]
  have "show_int x = show_int 25" by simp
  from show_int_inj[OF this] assms(4) show False by simp
qed

lemma visit_other_cell:
  assumes "\<bar>x\<bar> \<le> 2 ^ 53" "\<bar>y\<bar> \<le> 2 ^ 53" "\<bar>z\<bar> \<le> 2 ^ 53" "x \<noteq> 25"
  shows "visit_cell rt far_index position radius results
           (Fin (of_int x), Fin (of_int y), Fin (of_int z)) = Inr results"
  using key_of_other_cell[OF assms, of rt]
  by (simp add: visit_cell_def far_index_def)

text \<open>
  A loop over integers whose body leaves the accumulator as it is: the counter steps
  exactly, and the loop returns the accumulator.
\<close>

lemma for_loop_unchanged:
  assumes "\<And>i. lo \<le> i \<Longrightarrow> i \<le> hi \<Longrightarrow> body (Fin (of_int i)) acc = Some (Inr acc)"
    and "\<bar>lo\<bar> \<le> 2 ^ 52" "\<bar>hi\<bar> < 2 ^ 52"
  shows "for_loop body (Fin (of_int lo)) (Fin (of_int hi)) acc = Some (Inr acc)"
  using assms
proof (induction "nat (hi - lo + 1)" arbitrary: lo)
  case 0
  then have "\<not> lo \<le> hi" by simp
  then show ?case by (subst for_loop.simps) simp
next
  case (Suc n)
  then have le: "lo \<le> hi" by simp
  have n: "n = nat (hi - (lo + 1) + 1)" using Suc(2) by simp
  have b: "\<bar>lo + 1\<bar> \<le> 2 ^ 52" using le Suc.prems(2,3) by (auto simp: abs_le_iff abs_less_iff)
  have step: "round_double (real_of_int lo + 1) = Fin (real_of_int lo + 1)"
    using round_double_of_int[of "lo + 1"] b by simp
  have "for_loop body (Fin (of_int (lo + 1))) (Fin (of_int hi)) acc = Some (Inr acc)"
    by (rule Suc(1)[OF n]) (use Suc.prems b in auto)
  then have rest: "for_loop body (Fin (real_of_int lo + 1)) (Fin (of_int hi)) acc = Some (Inr acc)"
    by simp
  show ?case
    by (subst for_loop.simps) (simp add: le Suc.prems(1) step rest)
qed


text \<open>
  The cube at \<open>[2.5, 0, 0]\<close> with \<open>binSize = 0.1\<close>: its cell is \<open>25\<close>, because the quotient
  of the two doubles is below \<open>25\<close> and rounds to \<open>25\<close>. The cell of the point
  \<open>[0.3, 0, 0]\<close> is \<open>2\<close> and a radius of \<open>2.2\<close> is \<open>22\<close> bins, so the query visits the
  cells \<open>-20\<close> to \<open>24\<close> of the first axis.
\<close>

lemma cell_of_query:
  "getBinCoords rt (JNum (Fin double_0_1)) (point double_0_3 0 0) = Inr (Fin 2, Fin 0, Fin 0)"
  by (simp add: getBinCoords_def bin_coord_def point_def to_number_def bind_err_def
      double_0_1_def double_0_3_def num_eval)

lemma far_literals:
  "round_double (22 / 10) = Fin double_2_2" "round_double (25 / 10) = Fin (5 / 2)"
  by (simp_all add: num_eval double_2_2_def)

lemma cell_of_far_cube:
  "getBinCoords rt (JNum (Fin double_0_1)) (point (5 / 2) 0 0) = Inr (Fin 25, Fin 0, Fin 0)"
  by (simp add: getBinCoords_def bin_coord_def point_def to_number_def bind_err_def
      double_0_1_def num_eval)

lemma twenty_two_bins:
  "radius_in_bins rt (JNum (Fin double_0_1)) (JNum (Fin double_2_2)) = Inr (Fin 22)"
  by (simp add: radius_in_bins_def to_number_def bind_err_def double_0_1_def double_2_2_def
      num_eval)

lemma save_far_cube:
  "save rt fresh_storage (cube_at 1 (5 / 2) 0 0) ''Cubes'' = (Inr (), far_storage)"
  by (simp add: save_def validateEntity_def check_origin_def put_def key_path_def extract_key_def
      cube_at_def bind_err_def fresh_storage_def far_storage_def)

lemma build_far_index:
  "buildSpatialIndex rt far_storage far_fetched (JNum (Fin double_0_1)) = Inr far_index"
  by (simp add: buildSpatialIndex_def getEntitiesInBounds_def far_fetched_def fresh_storage_def
      far_storage_def
      in_bounds_of_kind_def isInBounds_def between_def cube_at_def point_def to_number_def
      bind_err_def add_entity_def cell_of_far_cube[unfolded point_def] getBinKey_def
      number_to_string_def show_int_def show_nat.simps digit_char_def far_index_def empty_bin_def)

lemma query_far_index:
  "queryNearPosition rt far_index (point double_0_3 0 0) (JNum (Fin double_2_2))
     = Some (Inr empty_bin)"
proof -
  have s: "index_binSize far_index = JNum (Fin double_0_1)" by (simp add: far_index_def)
  have b: "num_sub (Fin 2) (Fin 22) = Fin (of_int (- 20))" "num_add (Fin 2) (Fin 22) = Fin (of_int 24)"
    "num_sub (Fin 0) (Fin 22) = Fin (of_int (- 22))" "num_add (Fin 0) (Fin 22) = Fin (of_int 22)"
    by (simp_all add: num_sub_def num_eval)
  have inner: "for_loop (\<lambda>z results.
        Some (visit_cell rt far_index (point double_0_3 0 0) (JNum (Fin double_2_2)) results
                (Fin (of_int x), Fin (of_int y), z)))
      (Fin (of_int (- 22))) (Fin (of_int 22)) results = Some (Inr results)"
    if "- 20 \<le> x" "x \<le> 24" "- 22 \<le> y" "y \<le> 22" for x y results
  proof (rule for_loop_unchanged)
    fix z :: int assume "- 22 \<le> z" "z \<le> 22"
    with that have "\<bar>x\<bar> \<le> 2 ^ 53" "\<bar>y\<bar> \<le> 2 ^ 53" "\<bar>z\<bar> \<le> 2 ^ 53" "x \<noteq> 25" by simp_all
    from visit_other_cell[OF this]
    show "Some (visit_cell rt far_index (point double_0_3 0 0) (JNum (Fin double_2_2)) results
                (Fin (of_int x), Fin (of_int y), Fin (of_int z))) = Some (Inr results)" by simp
  qed simp_all
  have middle: "for_loop (\<lambda>y results.
        for_loop (\<lambda>z results.
            Some (visit_cell rt far_index (point double_0_3 0 0) (JNum (Fin double_2_2)) results
                    (Fin (of_int x), y, z)))
          (Fin (of_int (- 22))) (Fin (of_int 22)) results)
      (Fin (of_int (- 22))) (Fin (of_int 22)) results = Some (Inr results)"
    if "- 20 \<le> x" "x \<le> 24" for x results
  proof (rule for_loop_unchanged)
    fix y :: int assume "- 22 \<le> y" "y \<le> 22"
    from inner[OF that this]
    show "for_loop (\<lambda>z results.
            Some (visit_cell rt far_index (point double_0_3 0 0) (JNum (Fin double_2_2)) results
                    (Fin (of_int x), Fin (of_int y), z)))
          (Fin (of_int (- 22))) (Fin (of_int 22)) results = Some (Inr results)" .
  qed simp_all
  have outer: "for_loop (\<lambda>x results.
        for_loop (\<lambda>y results.
            for_loop (\<lambda>z results.
                Some (visit_cell rt far_index (point double_0_3 0 0) (JNum (Fin double_2_2)) results
                        (x, y, z)))
              (Fin (of_int (- 22))) (Fin (of_int 22)) results)
          (Fin (of_int (- 22))) (Fin (of_int 22)) results)
      (Fin (of_int (- 20))) (Fin (of_int 24)) empty_bin = Some (Inr empty_bin)"
  proof (rule for_loop_unchanged)
    fix x :: int assume "- 20 \<le> x" "x \<le> 24"
    from middle[OF this]
    show "for_loop (\<lambda>y results.
            for_loop (\<lambda>z results.
                Some (visit_cell rt far_index (point double_0_3 0 0) (JNum (Fin double_2_2)) results
                        (Fin (of_int x), y, z)))
              (Fin (of_int (- 22))) (Fin (of_int 22)) results)
          (Fin (of_int (- 22))) (Fin (of_int 22)) empty_bin = Some (Inr empty_bin)" .
  qed simp_all
  show ?thesis
    unfolding queryNearPosition_def s twenty_two_bins cell_of_query
    by (simp only: sum.case prod.case b outer)
qed

lemma far_cube_within_radius:
  "euclid (double_0_3, 0, 0) (5 / 2, 0, 0) < double_2_2
   \<and> within_radius CubeKind (double_0_3, 0, 0) double_2_2 (cube_at 1 (5 / 2) 0 0)"
proof -
  have "sqrt ((double_0_3 - 5 / 2)\<^sup>2) < double_2_2"
    by (simp add: double_0_3_def double_2_2_def)
  then show ?thesis
    by (simp add: within_radius_def entity_point_def cube_at_def point_def point_of_def
        bind_err_def euclid_def)
qed


text \<open>
  The test of \<open>addIfInRadius\<close> itself accepts the cube, on an engine whose \<open>Math.pow\<close>
  gives the double nearest to the square: the distance it computes is the radius.
\<close>

lemma square_of_far_radius:
  "round_double (double_2_2 * double_2_2) = Fin (5449355549118301 / 2 ^ 50)"
  by (simp add: num_eval double_2_2_def)

lemma root_of_far_square:
  "round_double (sqrt (5449355549118301 / 2 ^ 50)) = Fin double_2_2"
proof -
  let ?q = "5449355549118301 / 2 ^ 50 :: real"
  have a: "power_int 2 1 \<le> sqrt ?q"
    by (rule real_le_rsqrt) (simp add: power2_eq_square)
  have b: "sqrt ?q < power_int 2 (1 + 1)"
    by (rule real_less_lsqrt) (simp_all add: power2_eq_square)
  have "(4953959590107546 - 1 / 2) / 2 ^ 51 < sqrt ?q"
    by (rule real_less_rsqrt) (simp add: power2_eq_square)
  then have c: "of_int 4953959590107546 - 1 / 2 < sqrt ?q * power_int 2 (52 - 1)"
    by (simp add: field_simps)
  have "sqrt ?q < (4953959590107546 + 1 / 2) / 2 ^ 51"
    by (rule real_less_lsqrt) (simp_all add: power2_eq_square)
  then have d: "sqrt ?q * power_int 2 (52 - 1) < of_int 4953959590107546 + 1 / 2"
    by (simp add: field_simps)
  from round_double_near[OF a b _ _ c d] show ?thesis by (simp add: double_2_2_def)
qed

lemma far_own_test_accepts:
  assumes "approx_power rt (- double_2_2) 2 = round_double (double_2_2 * double_2_2)"
  shows "addIfInRadius rt (point double_0_3 0 0) (JNum (Fin double_2_2)) (point (5 / 2) 0 0)
           = Inr True"
proof -
  have d: "num_sub (Fin double_0_3) (Fin (5 / 2)) = Fin (- double_2_2)"
    by (simp add: num_sub_def num_eval double_0_3_def double_2_2_def)
  have n: "- double_2_2 \<noteq> 0" by (simp add: double_2_2_def)
  have s0: "squared_difference rt (point double_0_3 0 0) (point (5 / 2) 0 0) 0
      = Inr (Fin (5449355549118301 / 2 ^ 50))"
    using n by (simp add: squared_difference_def point_def bind_err_def to_number_JNum d pow_2_def
        assms square_of_far_radius)
  have z: "num_sub (Fin 0) (Fin 0) = Fin 0" by (simp add: num_sub_def num_eval)
  have s1: "squared_difference rt (point double_0_3 0 0) (point (5 / 2) 0 0) (Suc 0) = Inr (Fin 0)"
    by (simp add: squared_difference_def point_def bind_err_def to_number_JNum z pow_2_def)
  have s2: "squared_difference rt (point double_0_3 0 0) (point (5 / 2) 0 0) 2 = Inr (Fin 0)"
    by (simp add: squared_difference_def point_def bind_err_def to_number_JNum z pow_2_def)
  have sum: "num_add (num_add (Fin (5449355549118301 / 2 ^ 50)) (Fin 0)) (Fin 0)
      = Fin (5449355549118301 / 2 ^ 50)"
    by (simp add: num_eval)
  have rt: "num_sqrt (Fin (5449355549118301 / 2 ^ 50)) = Fin double_2_2"
    using root_of_far_square by simp
  show ?thesis
    unfolding addIfInRadius_def
    by (simp only: s0 s1[simplified] s1 s2 bind_err_def sum.case sum rt to_number_JNum num_le.simps
        One_nat_def)
      simp
qed

text \<open>
  A loop whose counter does not advance never ends: at an infinity and from \<open>2^53\<close> on the
  increment leaves the counter as it is. With an infinite radius the query never returns.
\<close>

lemma for_loop_stuck:
  assumes le: "num_le x0 hi0" and stuck: "num_add x0 (Fin 1) = x0"
    and total: "\<And>acc. \<exists>acc'. body x0 acc = Some (Inr acc')"
  shows "for_loop body x0 hi0 acc = None"
proof (rule ccontr)
  assume "for_loop body x0 hi0 acc \<noteq> None"
  then obtain y where y: "for_loop body x0 hi0 acc = Some y" by auto
  have "\<not> (body = body \<and> x0 = x0 \<and> hi0 = hi0)"
  proof (rule for_loop.raw_induct[where P = "\<lambda>b x hi acc y. \<not> (b = body \<and> x = x0 \<and> hi = hi0)"
        and xa = "(((body, x0), hi0), acc)" and y = y, simplified prod.case])
    show "for_loop body x0 hi0 acc = Some y" by (rule y)
  next
    fix loop :: "(jsnum \<Rightarrow> 'a \<Rightarrow> (error + 'a) option) \<Rightarrow> jsnum \<Rightarrow> jsnum \<Rightarrow> 'a \<Rightarrow> (error + 'a) option"
      and b x hi acc r
    assume ih: "\<And>x hi acc b y. loop x hi acc b = Some y \<Longrightarrow> \<not> (x = body \<and> hi = x0 \<and> acc = hi0)"
      and rhs: "(if num_le x hi
                 then case b x acc of None \<Rightarrow> None | Some (Inl e) \<Rightarrow> Some (Inl e)
                      | Some (Inr acc') \<Rightarrow> loop b (num_add x (Fin 1)) hi acc'
                 else Some (Inr acc)) = Some r"
    show "\<not> (b = body \<and> x = x0 \<and> hi = hi0)"
    proof
      assume a: "b = body \<and> x = x0 \<and> hi = hi0"
      from total[of acc] obtain acc' where "body x0 acc = Some (Inr acc')" by blast
      with rhs a le stuck have "loop body x0 hi0 acc' = Some r" by simp
      from ih[OF this] show False by simp
    qed
  qed
  then show False by simp
qed

lemma counter_stuck:
  "num_add NegInf (Fin 1) = NegInf" "num_add (Fin (2 ^ 53)) (Fin 1) = Fin (2 ^ 53)"
  by (simp_all add: num_eval)

lemma infinite_radius_never_returns:
  "queryNearPosition rt far_index (point double_0_3 0 0) (JNum PosInf) = None"
proof -
  have s: "index_binSize far_index = JNum (Fin double_0_1)" by (simp add: far_index_def)
  have r: "radius_in_bins rt (JNum (Fin double_0_1)) (JNum PosInf) = Inr PosInf"
    by (simp add: radius_in_bins_def to_number_JNum bind_err_def inf_of_sign_def double_0_1_def)
  have b: "num_sub (Fin 2) PosInf = NegInf" "num_add (Fin 2) PosInf = PosInf"
    "num_sub (Fin 0) PosInf = NegInf" "num_add (Fin 0) PosInf = PosInf"
    by (simp_all add: num_sub_def)
  have inner: "for_loop (\<lambda>z results.
        Some (visit_cell rt far_index (point double_0_3 0 0) (JNum PosInf) results (NegInf, NegInf, z)))
      NegInf PosInf results = None" for results
    by (rule for_loop_stuck)
      (simp_all add: counter_stuck visit_cell_def far_index_def getBinKey_def number_to_string_def)
  have middle: "for_loop (\<lambda>y results.
        for_loop (\<lambda>z results.
            Some (visit_cell rt far_index (point double_0_3 0 0) (JNum PosInf) results (NegInf, y, z)))
          NegInf PosInf results)
      NegInf PosInf results = None" for results
    by (subst for_loop.simps) (simp add: inner)
  have outer: "for_loop (\<lambda>x results.
        for_loop (\<lambda>y results.
            for_loop (\<lambda>z results.
                Some (visit_cell rt far_index (point double_0_3 0 0) (JNum PosInf) results (x, y, z)))
              NegInf PosInf results)
          NegInf PosInf results)
      NegInf PosInf empty_bin = None"
    by (subst for_loop.simps) (simp add: middle)
  show ?thesis
    unfolding queryNearPosition_def s r cell_of_query
    by (simp only: sum.case prod.case b outer)
qed

text \<open>
  A smaller instance, on the boundary: the cube at \<open>[0.5, 0, 0]\<close> is in the cell \<open>5\<close>, a
  radius of \<open>0.2\<close> is two bins, and the query at \<open>[0.3, 0, 0]\<close> visits the cells \<open>0\<close> to
  \<open>4\<close>, although the distance of the cube is exactly the radius.
\<close>

lemma double_literals:
  "round_double (1 / 10) = Fin double_0_1"
  "round_double (2 / 10) = Fin double_0_2"
  "round_double (3 / 10) = Fin double_0_3"
  "round_double (1 / 2) = Fin (1 / 2)"
  by (simp_all add: num_eval double_0_1_def double_0_2_def double_0_3_def)

lemma round_double_small:
  "round_double (- 2) = Fin (- 2)" "round_double (- 1) = Fin (- 1)" "round_double 0 = Fin 0"
  "round_double 1 = Fin 1" "round_double 2 = Fin 2" "round_double 3 = Fin 3"
  "round_double 4 = Fin 4" "round_double 5 = Fin 5"
  by (simp_all add: num_eval)

lemma cell_of_cube:
  "getBinCoords rt (JNum (Fin double_0_1)) (point (1 / 2) 0 0) = Inr (Fin 5, Fin 0, Fin 0)"
  by (simp add: getBinCoords_def bin_coord_def point_def to_number_def bind_err_def
      double_0_1_def num_eval)

lemma two_bins:
  "radius_in_bins rt (JNum (Fin double_0_1)) (JNum (Fin double_0_2)) = Inr (Fin 2)"
  by (simp add: radius_in_bins_def to_number_def bind_err_def double_0_1_def double_0_2_def
      num_eval)

lemma save_cube:
  "save rt fresh_storage (cube_at 1 (1 / 2) 0 0) ''Cubes'' = (Inr (), near_storage)"
  by (simp add: save_def validateEntity_def check_origin_def put_def key_path_def extract_key_def
      cube_at_def bind_err_def fresh_storage_def near_storage_def)

lemma build_near_index:
  "buildSpatialIndex rt near_storage near_fetched (JNum (Fin double_0_1)) = Inr near_index"
  by (simp add: buildSpatialIndex_def getEntitiesInBounds_def near_fetched_def fresh_storage_def
      near_storage_def
      in_bounds_of_kind_def isInBounds_def between_def cube_at_def point_def to_number_def
      bind_err_def add_entity_def cell_of_cube[unfolded point_def] getBinKey_def
      number_to_string_def show_int_def show_nat.simps digit_char_def near_index_def empty_bin_def)

lemma query_near_index:
  "queryNearPosition rt near_index (point double_0_3 0 0) (JNum (Fin double_0_2))
     = Some (Inr empty_bin)"
  by (simp add: queryNearPosition_def near_index_def two_bins cell_of_query for_loop.simps
      num_sub_def round_double_small visit_cell_def getBinKey_def
      number_to_string_def show_int_def show_nat.simps digit_char_def)

lemma cube_within_radius:
  "within_radius CubeKind (double_0_3, 0, 0) double_0_2 (cube_at 1 (1 / 2) 0 0)"
proof -
  have "sqrt ((double_0_3 - 1 / 2)\<^sup>2) \<le> double_0_2"
    by (simp add: double_0_3_def double_0_2_def)
  then show ?thesis
    by (simp add: within_radius_def entity_point_def cube_at_def point_def point_of_def
        bind_err_def euclid_def)
qed

text \<open>
  The test of \<open>addIfInRadius\<close> itself accepts the cube, on an engine whose \<open>Math.pow\<close>
  gives the double nearest to the square: the distance it computes is the radius.
\<close>

lemma square_of_radius:
  "round_double (double_0_2 * double_0_2) = Fin (1441151880758559 / 2 ^ 55)"
  by (simp add: num_eval double_0_2_def)

lemma root_of_square:
  "round_double (sqrt (1441151880758559 / 2 ^ 55)) = Fin double_0_2"
proof -
  let ?q = "1441151880758559 / 2 ^ 55 :: real"
  have a: "power_int 2 (- 3) \<le> sqrt ?q"
    by (rule real_le_rsqrt) (simp add: power2_eq_square)
  have b: "sqrt ?q < power_int 2 (- 3 + 1)"
    by (rule real_less_lsqrt) (simp_all add: power2_eq_square)
  have "(7205759403792794 - 1 / 2) / 2 ^ 55 < sqrt ?q"
    by (rule real_less_rsqrt) (simp add: power2_eq_square)
  then have c: "of_int 7205759403792794 - 1 / 2 < sqrt ?q * power_int 2 (52 - (- 3))"
    by (simp add: field_simps)
  have "sqrt ?q < (7205759403792794 + 1 / 2) / 2 ^ 55"
    by (rule real_less_lsqrt) (simp_all add: power2_eq_square)
  then have d: "sqrt ?q * power_int 2 (52 - (- 3)) < of_int 7205759403792794 + 1 / 2"
    by (simp add: field_simps)
  from round_double_near[OF a b _ _ c d] show ?thesis by (simp add: double_0_2_def)
qed

lemma own_test_accepts:
  assumes "approx_power rt (- double_0_2) 2 = round_double (double_0_2 * double_0_2)"
  shows "addIfInRadius rt (point double_0_3 0 0) (JNum (Fin double_0_2)) (point (1 / 2) 0 0)
           = Inr True"
proof -
  have d: "num_sub (Fin double_0_3) (Fin (1 / 2)) = Fin (- double_0_2)"
    by (simp add: num_sub_def num_eval double_0_3_def double_0_2_def)
  have n: "- double_0_2 \<noteq> 0" by (simp add: double_0_2_def)
  have s0: "squared_difference rt (point double_0_3 0 0) (point (1 / 2) 0 0) 0
      = Inr (Fin (1441151880758559 / 2 ^ 55))"
    using n by (simp add: squared_difference_def point_def bind_err_def to_number_JNum d pow_2_def
        assms square_of_radius)
  have z: "num_sub (Fin 0) (Fin 0) = Fin 0" by (simp add: num_sub_def num_eval)
  have s1: "squared_difference rt (point double_0_3 0 0) (point (1 / 2) 0 0) (Suc 0) = Inr (Fin 0)"
    by (simp add: squared_difference_def point_def bind_err_def to_number_JNum z pow_2_def)
  have s2: "squared_difference rt (point double_0_3 0 0) (point (1 / 2) 0 0) 2 = Inr (Fin 0)"
    by (simp add: squared_difference_def point_def bind_err_def to_number_JNum z pow_2_def)
  have sum: "num_add (num_add (Fin (1441151880758559 / 2 ^ 55)) (Fin 0)) (Fin 0)
      = Fin (1441151880758559 / 2 ^ 55)"
    by (simp add: num_eval)
  have rt: "num_sqrt (Fin (1441151880758559 / 2 ^ 55)) = Fin double_0_2"
    using root_of_square by simp
  show ?thesis
    unfolding addIfInRadius_def
    by (simp only: s0 s1[simplified] s1 s2 bind_err_def sum.case sum rt to_number_JNum num_le.simps
        One_nat_def)
      simp
qed

text \<open>
  With the radius \<open>0.3\<close>, which is three bins, the same query visits the cell of the cube
  and returns it.
\<close>

lemma three_bins:
  "radius_in_bins rt (JNum (Fin double_0_1)) (JNum (Fin double_0_3)) = Inr (Fin 3)"
  by (simp add: radius_in_bins_def to_number_def bind_err_def double_0_1_def double_0_3_def
      num_eval)

lemma cube_in_wider_radius:
  "in_radius_of_kind squaring_runtime (point double_0_3 0 0) (JNum (Fin double_0_3)) CubeKind
       (cube_at 1 (1 / 2) 0 0)
     = Inr True"
proof -
  have p: "approx_power squaring_runtime (- double_0_2) 2 = round_double (double_0_2 * double_0_2)"
    by (simp add: squaring_runtime_def)
  have "addIfInRadius squaring_runtime (point double_0_3 0 0) (JNum (Fin double_0_2))
      (point (1 / 2) 0 0) = Inr True"
    by (rule own_test_accepts[OF p])
  moreover have "double_0_2 \<le> double_0_3" by (simp add: double_0_2_def double_0_3_def)
  ultimately have "addIfInRadius squaring_runtime (point double_0_3 0 0) (JNum (Fin double_0_3))
      (point (1 / 2) 0 0) = Inr True"
    by (auto simp: addIfInRadius_def bind_err_def to_number_JNum split: sum.splits jsnum.splits
        elim!: num_le.elims)
  then show ?thesis
    by (simp add: in_radius_of_kind_def cube_at_def bind_err_def)
qed

lemma wider_query_finds_cube:
  "queryNearPosition squaring_runtime near_index (point double_0_3 0 0) (JNum (Fin double_0_3))
     = Some (Inr near_fetched)"
proof -
  have r: "round_double 6 = Fin 6" "round_double (- 3) = Fin (- 3)"
    by (simp_all add: num_eval)
  show ?thesis
    by (simp add: queryNearPosition_def near_index_def three_bins cell_of_query for_loop.simps
        num_sub_def round_double_small r visit_cell_def getBinKey_def
        number_to_string_def show_int_def show_nat.simps digit_char_def bind_err_def
        cube_in_wider_radius[unfolded near_fetched_def] near_fetched_def cube_in_wider_radius
        empty_bin_def)
qed

section \<open>The claims\<close>

subsection \<open>C1: \<open>updateCubeHierarchy\<close> and validation\<close>

text \<open>
  Claim C1, as amended. \<open>updateCubeHierarchy\<close> validates nothing. On an initialised store,
  for a bundle whose three lists are arrays (or absent) and whose entities all carry a valid
  key, every \<open>put\<close> is accepted, the promise resolves, and afterwards \<open>get\<close> finds the
  cube under its key and, under the key of each entity of a list, the last entity of that
  list with this key (the entity itself when no later one shares its key). No hypothesis
  asks the entities to pass \<open>validateEntity\<close> or the origin check. An array of the language
  has fewer than \<open>2^32\<close> elements.
\<close>

theorem updateCubeHierarchy_writes_all:
  assumes d: "db s = Some d"
    and props: "get_prop cubeData ''cube'' = Inr cube" "get_prop cubeData ''subcubes'' = Inr sc"
      "get_prop cubeData ''subcubeVertices'' = Inr sv" "get_prop cubeData ''cubeVertices'' = Inr cv"
    and lists: "entities sc = Some scs" "entities sv = Some svs" "entities cv = Some cvs"
    and small: "length scs < 2 ^ 32" "length svs < 2 ^ 32" "length cvs < 2 ^ 32"
    and keys: "keyed ''id'' cube" "list_all (keyed ''id'') scs" "list_all (keyed ''id'') svs"
      "list_all (keyed ''vertexID'') cvs"
  shows "fst (updateCubeHierarchy rt s cubeData) = Resolved
       \<and> get (snd (updateCubeHierarchy rt s cubeData)) (key_or_undefined ''id'' cube) ''Cubes''
           = Inr cube
       \<and> (\<forall>e\<in>set scs.
             get (snd (updateCubeHierarchy rt s cubeData)) (key_or_undefined ''id'' e) ''Subcubes''
               = Inr (last (filter (\<lambda>e'. key_or_undefined ''id'' e' = key_or_undefined ''id'' e) scs)))
       \<and> (\<forall>e\<in>set svs.
             get (snd (updateCubeHierarchy rt s cubeData)) (key_or_undefined ''id'' e)
                 ''SubcubeVertices''
               = Inr (last (filter (\<lambda>e'. key_or_undefined ''id'' e' = key_or_undefined ''id'' e) svs)))
       \<and> (\<forall>e\<in>set cvs.
             get (snd (updateCubeHierarchy rt s cubeData)) (key_or_undefined ''vertexID'' e)
                 ''CubeVertices''
               = Inr (last (filter (\<lambda>e'. key_or_undefined ''vertexID'' e'
                                          = key_or_undefined ''vertexID'' e) cvs)))"
proof -
  note u = updateCubeHierarchy_content[OF d props lists small keys, of rt]
  have kp: "key_path ''Cubes'' = Some ''id''" "key_path ''Subcubes'' = Some ''id''"
    "key_path ''SubcubeVertices'' = Some ''id''" "key_path ''CubeVertices'' = Some ''vertexID''"
    by (simp_all add: key_path_def)
  have vis: "(case (m ++ latest path es) (key_or_undefined path e) of None \<Rightarrow> JUndefined | Some v \<Rightarrow> v)
       = last (filter (\<lambda>e'. key_or_undefined path e' = key_or_undefined path e) es)"
    if "e \<in> set es" for e es path and m :: "jsval \<rightharpoonup> jsval"
  proof -
    from that have "filter (\<lambda>e'. key_or_undefined path e' = key_or_undefined path e) es \<noteq> []"
      by (auto simp: filter_empty_conv)
    then obtain x xs where
      f: "filter (\<lambda>e'. key_or_undefined path e' = key_or_undefined path e) es = x # xs"
      by (cases "filter (\<lambda>e'. key_or_undefined path e' = key_or_undefined path e) es") auto
    have "latest path es (key_or_undefined path e) = Some (last (x # xs))"
      by (simp add: latest_last f)
    then show ?thesis by (simp add: map_add_def f)
  qed
  have vk: "valid_key (key_or_undefined path e)" if "list_all (keyed path) es" "e \<in> set es"
    for path es e using that keyed_valid by (auto simp: list_all_iff)
  show ?thesis
    apply (intro conjI ballI)
        apply (simp add: u)
       apply (simp add: u get_def kp keyed_valid[OF keys(1)])
      apply (simp add: u get_def kp vk[OF keys(2)] vis)
     apply (simp add: u get_def kp vk[OF keys(3)] vis)
    apply (simp add: u get_def kp vk[OF keys(4)] vis)
    done
qed

text \<open>
  The bundle of \<open>main.js\<close>, with a cube whose vertex colours are out of range, a
  model-built subcube vertex (no \<open>valueArray\<close>) and a cube vertex whose \<open>valueArray\<close> has
  two elements: everything is written and read back.
\<close>

theorem updateCubeHierarchy_writes_all_witness:
  "fst (updateCubeHierarchy example_runtime fresh_storage sample_bundle) = Resolved
   \<and> get (snd (updateCubeHierarchy example_runtime fresh_storage sample_bundle)) (JNum (Fin 1))
        ''Cubes'' = Inr bright_cube
   \<and> get (snd (updateCubeHierarchy example_runtime fresh_storage sample_bundle)) (JStr ''AA'')
        ''Subcubes'' = Inr (subcube_AA origin_3 (JStr ''11''))
   \<and> get (snd (updateCubeHierarchy example_runtime fresh_storage sample_bundle)) (JStr ''AAv0'')
        ''SubcubeVertices'' = Inr model_vertex
   \<and> get (snd (updateCubeHierarchy example_runtime fresh_storage sample_bundle)) (JStr ''1vrtx0'')
        ''CubeVertices'' = Inr red_vertex"
proof -
  have small: "length [subcube_AA origin_3 (JStr ''11'')] < 2 ^ 32" "length [model_vertex] < 2 ^ 32"
    "length [red_vertex] < 2 ^ 32" by simp_all
  from updateCubeHierarchy_writes_all[OF db_fresh_storage sample_bundle_props
      sample_bundle_entities sample_bundle_entities sample_bundle_entities small
      sample_bundle_keyed, of example_runtime]
  show ?thesis by (simp add: sample_bundle_keys)
qed

text \<open>
  Claim C1 as stated fails on that bundle: its cube vertex fails \<open>validateEntity\<close>, and
  yet after \<open>updateCubeHierarchy\<close> the cube and that very vertex are visible through
  \<open>get\<close>.
\<close>

theorem updateCubeHierarchy_atomicity_counterexample:
  "validateEntity example_runtime fresh_storage red_vertex ''CubeVertices''
     = Inl (ValidationError
              ''Invalid valueArray format: expected [color, position, weight, proximity]'')
   \<and> fst (updateCubeHierarchy example_runtime fresh_storage sample_bundle) = Resolved
   \<and> get (snd (updateCubeHierarchy example_runtime fresh_storage sample_bundle)) (JNum (Fin 1))
        ''Cubes'' = Inr bright_cube
   \<and> get (snd (updateCubeHierarchy example_runtime fresh_storage sample_bundle)) (JStr ''1vrtx0'')
        ''CubeVertices'' = Inr red_vertex"
proof -
  have v: "validateEntity example_runtime fresh_storage red_vertex ''CubeVertices''
     = Inl (ValidationError
              ''Invalid valueArray format: expected [color, position, weight, proximity]'')"
    by (simp add: validateEntity_def validate_vertex_def red_vertex_def CubeVertex_def
        bind_err_def fresh_storage_def)
  have small: "length [subcube_AA origin_3 (JStr ''11'')] < 2 ^ 32" "length [model_vertex] < 2 ^ 32"
    "length [red_vertex] < 2 ^ 32" by simp_all
  note u = updateCubeHierarchy_content[OF db_fresh_storage sample_bundle_props
      sample_bundle_entities sample_bundle_entities sample_bundle_entities small
      sample_bundle_keyed, of example_runtime]
  show ?thesis
    by (simp add: v u get_def key_path_def sample_bundle_keys latest_def)
qed

subsection \<open>C2: \<open>queryNearPosition\<close> misses an entity within the radius\<close>

text \<open>
  Claim C2 fails on the code. The cell of a position is \<open>Math.floor(position[i] / binSize)\<close>,
  and the quotient is rounded to a double before the floor is taken. With \<open>binSize = 0.1\<close>
  the cube at \<open>[2.5, 0, 0]\<close> is put into the cell \<open>25\<close>, because \<open>2.5 / 0.1\<close> rounds up to
  \<open>25\<close>. The query at \<open>[0.3, 0, 0]\<close> with radius \<open>2.2\<close> has its centre in the cell \<open>2\<close>,
  since \<open>0.3 / 0.1\<close> is below \<open>3\<close>, and visits the cells \<open>-20\<close> to \<open>24\<close> of the first
  axis: it returns nothing, although the distance between the two points is less than the
  radius. The statement holds for every engine. The distance test of the query itself
  accepts the cube (lemma \<open>far_own_test_accepts\<close>). A smaller instance, with the cube on
  the boundary, is evaluated cell by cell in lemma \<open>query_near_index\<close>; there a wider
  radius does return the cube (lemma \<open>wider_query_finds_cube\<close>).
\<close>

theorem queryNearPosition_false_negative:
  "round_double (1 / 10) = Fin double_0_1
   \<and> round_double (3 / 10) = Fin double_0_3
   \<and> round_double (22 / 10) = Fin double_2_2
   \<and> round_double (25 / 10) = Fin (5 / 2)
   \<and> save rt fresh_storage (cube_at 1 (5 / 2) 0 0) ''Cubes'' = (Inr (), far_storage)
   \<and> cubes far_fetched = [cube_at 1 (5 / 2) 0 0]
   \<and> buildSpatialIndex rt far_storage far_fetched (JNum (Fin double_0_1)) = Inr far_index
   \<and> getBinCoords rt (JNum (Fin double_0_1)) (point (5 / 2) 0 0) = Inr (Fin 25, Fin 0, Fin 0)
   \<and> getBinCoords rt (JNum (Fin double_0_1)) (point double_0_3 0 0) = Inr (Fin 2, Fin 0, Fin 0)
   \<and> radius_in_bins rt (JNum (Fin double_0_1)) (JNum (Fin double_2_2)) = Inr (Fin 22)
   \<and> queryNearPosition rt far_index (point double_0_3 0 0) (JNum (Fin double_2_2))
       = Some (Inr empty_bin)
   \<and> euclid (double_0_3, 0, 0) (5 / 2, 0, 0) < double_2_2
   \<and> within_radius CubeKind (double_0_3, 0, 0) double_2_2 (cube_at 1 (5 / 2) 0 0)"
proof -
  have c: "cubes far_fetched = [cube_at 1 (5 / 2) 0 0]" by (simp add: far_fetched_def)
  note w = far_cube_within_radius[THEN conjunct1] far_cube_within_radius[THEN conjunct2]
  show ?thesis
    by (intro conjI)
      (rule double_literals far_literals save_far_cube build_far_index cell_of_far_cube
        cell_of_query twenty_two_bins query_far_index c w)+
qed

subsection \<open>C3: the origin check of \<open>save\<close>\<close>




subsection \<open>C4: \<open>save\<close> then \<open>get\<close>\<close>

text \<open>
  Claim C4. When \<open>save\<close> succeeds, \<open>get\<close> with the key of the entity and the same store
  returns the entity as \<open>validateEntity\<close> left it: for the two vertex stores the entity with
  \<open>proximityPadding\<close> set to the absolute value of its weight, for every other store the
  entity itself.
\<close>

theorem save_then_get:
  assumes "save rt s entity storeName = (Inr (), s')"
  shows "\<exists>entity' path k.
           validateEntity rt s entity storeName = Inr entity'
         \<and> key_path storeName = Some path
         \<and> extract_key path entity = Inr k
         \<and> get s' k storeName = Inr entity'
         \<and> (if vertex_store storeName
            then \<exists>ps c p w x. entity = JObj ps
                   \<and> map_of ps ''valueArray'' = Some (JArr [c, p, JNum w, x])
                   \<and> entity' = set_prop ps ''proximityPadding'' (JNum (num_abs w))
            else entity' = entity)"
proof -
  from save_Inr[OF assms] obtain entity' d path k where
    v: "validateEntity rt s entity storeName = Inr entity'" and d: "db s = Some d"
    and p: "key_path storeName = Some path" and k: "extract_key path entity' = Inr k"
    and s': "s' = s\<lparr>db := Some (d(storeName := (d storeName)(k \<mapsto> entity')))\<rparr>"
    by blast
  from validateEntity_Inr[OF v, THEN conjunct2] have shape:
    "if vertex_store storeName
     then \<exists>ps c p w x. entity = JObj ps \<and> map_of ps ''valueArray'' = Some (JArr [c, p, JNum w, x])
            \<and> w \<noteq> NaN \<and> entity' = set_prop ps ''proximityPadding'' (JNum (num_abs w))
     else entity' = entity" .
  have k0: "extract_key path entity = Inr k"
    using shape k key_path_not_padding[OF p] extract_key_set_prop[of path "''proximityPadding''"]
    by (auto split: if_splits)
  have g: "get s' k storeName = Inr entity'"
    using extract_key_valid[OF k] p by (simp add: get_def s')
  show ?thesis using v p k0 g shape by (auto split: if_splits)
qed

text \<open>
  A cube vertex with weight \<open>-2\<close> and no \<open>proximityPadding\<close> comes back with
  \<open>proximityPadding = 2\<close>.
\<close>

theorem save_then_get_witness:
  "fst (save example_runtime fresh_storage (red_corner []) ''CubeVertices'') = Inr ()
   \<and> get (snd (save example_runtime fresh_storage (red_corner []) ''CubeVertices''))
        (JStr ''1vrtx0'') ''CubeVertices''
     = Inr (red_corner [JNum (Fin 2)])"
proof -
  let ?s' = "snd (save example_runtime fresh_storage (red_corner []) ''CubeVertices'')"
  have sv: "save example_runtime fresh_storage (red_corner []) ''CubeVertices'' = (Inr (), ?s')"
    by (simp add: save_red_corner)
  from save_then_get[OF sv] obtain entity' path k where
    "validateEntity example_runtime fresh_storage (red_corner []) ''CubeVertices'' = Inr entity'"
    "key_path ''CubeVertices'' = Some path" "extract_key path (red_corner []) = Inr k"
    "get ?s' k ''CubeVertices'' = Inr entity'"
    by blast
  moreover have "key_path ''CubeVertices'' = Some ''vertexID''" by (simp add: key_path_def)
  moreover have "extract_key ''vertexID'' (red_corner []) = Inr (JStr ''1vrtx0'')"
    by (simp add: extract_key_def red_corner_def)
  ultimately have "get ?s' (JStr ''1vrtx0'') ''CubeVertices'' = Inr (red_corner [JNum (Fin 2)])"
    by (simp add: validate_red_corner)
  then show ?thesis by (simp add: save_red_corner)
qed

subsection \<open>C5: a \<open>SubcubeVertex\<close> of the model class cannot be saved\<close>

text \<open>
  Claim C5. Whatever the arguments of the constructor, \<open>save\<close> of the object it builds into
  \<open>SubcubeVertices\<close> throws and leaves the store as it was: on an initialised store the error
  is the \<open>valueArray\<close> error of the validation (before initialisation it is
  \<open>Database not initialized\<close>).
\<close>

theorem model_SubcubeVertex_never_saved:
  assumes "SubcubeVertex rt ident windowUID cubeId subCubeID originID val activeWindowUID = Inr e"
  shows "save rt s e ''SubcubeVertices''
         = (Inl (if db s = None then NotInitialized
                 else ValidationError
                        ''Invalid valueArray format: expected [color, position, weight, proximity]''),
            s)"
  using assms
  by (auto simp: SubcubeVertex_def save_def validateEntity_def validate_vertex_def bind_err_def
      split: sum.splits)

text \<open>
  The subcube vertex of \<open>main.js\<close>.
\<close>

theorem model_SubcubeVertex_never_saved_witness:
  "SubcubeVertex example_runtime (JStr ''AAv0'') (JNum (Fin 1)) (JNum (Fin 1)) (JStr ''AA'')
       (JStr ''11'') green_vertex_value (JNum (Fin 1))
     = Inr model_vertex
   \<and> save example_runtime fresh_storage model_vertex ''SubcubeVertices''
     = (Inl (ValidationError
               ''Invalid valueArray format: expected [color, position, weight, proximity]''),
        fresh_storage)"
proof -
  have c: "SubcubeVertex example_runtime (JStr ''AAv0'') (JNum (Fin 1)) (JNum (Fin 1)) (JStr ''AA'')
       (JStr ''11'') green_vertex_value (JNum (Fin 1))
     = Inr model_vertex"
    by (simp add: SubcubeVertex_def model_vertex_def green_vertex_value_def bind_err_def
        abs_by_sign_num)
  show ?thesis
    using model_SubcubeVertex_never_saved[OF c, of fresh_storage] c
    by (simp add: fresh_storage_def)
qed

subsection \<open>C6: \<open>proximityPadding\<close> is the absolute value of the weight\<close>

text \<open>
  Claim C6. \<open>calculateProximityPadding\<close> of a number is its absolute value; and when
  \<open>save\<close> into a vertex store succeeds, the stored entity has the \<open>valueArray\<close> it was given
  and, as \<open>proximityPadding\<close>, the absolute value of the weight in it, whatever
  \<open>proximityPadding\<close> the entity carried before.
\<close>

theorem proximityPadding_is_abs:
  "calculateProximityPadding rt (JNum w) = Inr (JNum (num_abs w))
   \<and> (vertex_store storeName \<and> save rt s entity storeName = (Inr (), s') \<longrightarrow>
        (\<exists>ps c p w' x path k stored.
            entity = JObj ps \<and> map_of ps ''valueArray'' = Some (JArr [c, p, JNum w', x])
          \<and> key_path storeName = Some path \<and> extract_key path entity = Inr k
          \<and> get s' k storeName = Inr stored
          \<and> get_prop stored ''valueArray'' = Inr (JArr [c, p, JNum w', x])
          \<and> get_prop stored ''proximityPadding'' = Inr (JNum (num_abs w'))))"
proof (intro conjI impI)
  show "calculateProximityPadding rt (JNum w) = Inr (JNum (num_abs w))"
    by (simp add: calculateProximityPadding_def abs_by_sign_num)
next
  assume a: "vertex_store storeName \<and> save rt s entity storeName = (Inr (), s')"
  then have vs: "vertex_store storeName" and sv: "save rt s entity storeName = (Inr (), s')"
    by simp_all
  from save_Inr[OF sv] obtain entity' d path k where
    v: "validateEntity rt s entity storeName = Inr entity'" and d: "db s = Some d"
    and p: "key_path storeName = Some path" and k: "extract_key path entity' = Inr k"
    and s': "s' = s\<lparr>db := Some (d(storeName := (d storeName)(k \<mapsto> entity')))\<rparr>"
    by blast
  from validateEntity_Inr[OF v] vs obtain ps c p w' x where
    e: "entity = JObj ps" and va: "map_of ps ''valueArray'' = Some (JArr [c, p, JNum w', x])"
    and e': "entity' = set_prop ps ''proximityPadding'' (JNum (num_abs w'))"
    by auto
  have g: "get s' k storeName = Inr entity'"
    using extract_key_valid[OF k] p by (simp add: get_def s')
  have k0: "extract_key path entity = Inr k"
    using k key_path_not_padding[OF p] extract_key_set_prop[of path "''proximityPadding''" ps]
    by (simp add: e e')
  have "get_prop entity' ''valueArray'' = Inr (JArr [c, p, JNum w', x])"
    using va by (simp add: e' get_prop_set_prop_other)
  moreover have "get_prop entity' ''proximityPadding'' = Inr (JNum (num_abs w'))"
    by (simp add: e' get_prop_set_prop_same)
  ultimately show "\<exists>ps c p w' x path k stored.
            entity = JObj ps \<and> map_of ps ''valueArray'' = Some (JArr [c, p, JNum w', x])
          \<and> key_path storeName = Some path \<and> extract_key path entity = Inr k
          \<and> get s' k storeName = Inr stored
          \<and> get_prop stored ''valueArray'' = Inr (JArr [c, p, JNum w', x])
          \<and> get_prop stored ''proximityPadding'' = Inr (JNum (num_abs w'))"
    using g e va p k0 by blast
qed

text \<open>
  A vertex with weight \<open>-1/2\<close> that arrives with \<open>proximityPadding = 7\<close> is stored with
  \<open>proximityPadding = 1/2\<close>.
\<close>

theorem proximityPadding_is_abs_witness:
  "vertex_store ''SubcubeVertices''
   \<and> fst (save example_runtime fresh_storage stale_vertex ''SubcubeVertices'') = Inr ()
   \<and> get_prop stale_vertex ''proximityPadding'' = Inr (JNum (Fin 7))
   \<and> (\<exists>stored.
         get (snd (save example_runtime fresh_storage stale_vertex ''SubcubeVertices''))
           (JStr ''AAv0'') ''SubcubeVertices'' = Inr stored
       \<and> get_prop stored ''proximityPadding'' = Inr (JNum (Fin (1 / 2))))
   \<and> calculateProximityPadding example_runtime (JNum (Fin (- 1 / 2))) = Inr (JNum (Fin (1 / 2)))"
proof -
  let ?s' = "snd (save example_runtime fresh_storage stale_vertex ''SubcubeVertices'')"
  have vs: "vertex_store ''SubcubeVertices''" by (simp add: vertex_store_def)
  have sv: "save example_runtime fresh_storage stale_vertex ''SubcubeVertices'' = (Inr (), ?s')"
    by (simp add: save_stale_vertex)
  note inst = proximityPadding_is_abs[of example_runtime "Fin (- 1 / 2)" "''SubcubeVertices''"
      fresh_storage stale_vertex ?s']
  from inst vs sv obtain ps c p w' x path k stored where
    e: "stale_vertex = JObj ps" and va: "map_of ps ''valueArray'' = Some (JArr [c, p, JNum w', x])"
    and g: "get ?s' k ''SubcubeVertices'' = Inr stored"
    and pp: "get_prop stored ''proximityPadding'' = Inr (JNum (num_abs w'))"
    by blast
  have w': "w' = Fin (- 1 / 2)"
    using e va by (auto simp: stale_vertex_def stored_vertex_def)
  have g2: "get ?s' (JStr ''AAv0'') ''SubcubeVertices''
      = Inr (stored_vertex (JNum (Fin (- 1 / 2))) (JNum (Fin (1 / 2))))"
    by (simp add: save_stale_vertex get_def key_path_def)
  have "get_prop (stored_vertex (JNum (Fin (- 1 / 2))) (JNum (Fin (1 / 2)))) ''proximityPadding''
      = Inr (JNum (Fin (1 / 2)))" by (simp add: stored_vertex_def)
  moreover have "get_prop stale_vertex ''proximityPadding'' = Inr (JNum (Fin 7))"
    by (simp add: stale_vertex_def stored_vertex_def)
  moreover have "calculateProximityPadding example_runtime (JNum (Fin (- 1 / 2))) = Inr (JNum (Fin (1 / 2)))"
    using inst by simp
  ultimately show ?thesis using vs g2 by (simp add: save_stale_vertex)
qed

subsection \<open>C7: \<open>blendBackground\<close>\<close>

text \<open>
  Claim C7. On three arrays of three numbers each, \<open>blendBackground\<close> returns per channel
  \<open>Math.min(255, base + incoming + ambient)\<close>, the sum being the sum of the language, which
  rounds each addition to a double. Whenever the two additions are exact, as they are for
  integers up to \<open>2^53\<close> (lemma \<open>round_double_of_int\<close>), each channel is the minimum of 255
  and the sum.
\<close>

theorem blendBackground_clamped_sum:
  "blendBackground rt (JArr [JNum b0, JNum b1, JNum b2]) (JArr [JNum i0, JNum i1, JNum i2])
       (JObj [(''ambient'', JArr [JNum a0, JNum a1, JNum a2])])
     = Inr (JArr [JNum (blendBackground_spec b0 i0 a0), JNum (blendBackground_spec b1 i1 a1),
                  JNum (blendBackground_spec b2 i2 a2)])
   \<and> (round_double (x + y) = Fin (x + y) \<and> round_double (x + y + z) = Fin (x + y + z)
        \<longrightarrow> blendBackground_spec (Fin x) (Fin y) (Fin z) = Fin (min 255 (x + y + z)))"
  by (simp add: blendBackground_def bind_err_def background_channel_num blendBackground_spec_exact)

text \<open>
  The scenario of the specification: clamped on the first two channels, not on the third.
\<close>

theorem blendBackground_clamped_sum_witness:
  "round_double (10 + 250) = Fin (10 + 250) \<and> round_double (10 + 250 + 10) = Fin (10 + 250 + 10)
   \<and> round_double (10 + 10) = Fin (10 + 10) \<and> round_double (10 + 10 + 10) = Fin (10 + 10 + 10)
   \<and> blendBackground example_runtime (JArr [JNum (Fin 10), JNum (Fin 10), JNum (Fin 10)])
        (JArr [JNum (Fin 250), JNum (Fin 250), JNum (Fin 10)])
        (JObj [(''ambient'', JArr [JNum (Fin 10), JNum (Fin 10), JNum (Fin 10)])])
     = Inr (JArr [JNum (Fin 255), JNum (Fin 255), JNum (Fin 30)])"
proof -
  have r: "round_double (10 + 250) = Fin (10 + 250)"
    "round_double (10 + 250 + 10) = Fin (10 + 250 + 10)"
    "round_double (10 + 10) = Fin (10 + 10)" "round_double (10 + 10 + 10) = Fin (10 + 10 + 10)"
    by (simp_all add: num_eval)
  note general = blendBackground_clamped_sum[of example_runtime "Fin 10" "Fin 10" "Fin 10"
      "Fin 250" "Fin 250" "Fin 10" "Fin 10" "Fin 10" "Fin 10"]
  have "blendBackground_spec (Fin 10) (Fin 250) (Fin 10) = Fin 255"
    using blendBackground_clamped_sum[of example_runtime _ _ _ _ _ _ _ _ _ 10 250 10] r by simp
  moreover have "blendBackground_spec (Fin 10) (Fin 10) (Fin 10) = Fin 30"
    using blendBackground_clamped_sum[of example_runtime _ _ _ _ _ _ _ _ _ 10 10 10] r by simp
  ultimately show ?thesis using general r by simp
qed

subsection \<open>C8: identifiers that are not registered\<close>

text \<open>
  Claim C8 fails on the code for the identifiers that \<open>blendingFunctions\<close> inherits from
  \<open>Object.prototype\<close>: \<open>blendingFunctions["constructor"]\<close> is the function \<open>Object\<close>, which
  is truthy, so the fallback is not taken and \<open>blend\<close> returns \<open>Object(color1, ...)\<close>, the
  base colour itself, where \<open>blendBackground\<close> gives \<open>[255, 255, 30]\<close>; and
  \<open>blendingFunctions["valueOf"]\<close>, called with no receiver, throws a \<open>TypeError\<close>.
\<close>

theorem blend_inherited_identifier:
  "blend example_runtime (Painter None None) dim_color bright_color
       (JObj [(''weight'', JNum (Fin 1)), (''proximity'', JStr ''constructor'')])
     = Inr dim_color
   \<and> blendBackground example_runtime dim_color bright_color
       (JObj [(''weight'', JNum (Fin 1)), (''ambient'', ambientValue (Painter None None))])
     = Inr (JArr [JNum (Fin 255), JNum (Fin 255), JNum (Fin 30)])
   \<and> blend example_runtime (Painter None None) dim_color bright_color
       (JObj [(''weight'', JNum (Fin 1)), (''proximity'', JStr ''valueOf'')])
     = Inl TypeError"
  by (simp add: blend_def bind_err_def blendingFunctions_def object_prototype_names_def
      call_inherited_def dim_color_def bright_color_def blendBackground_def Painter_def
      background_channel_def js_add_JNum to_number_JNum to_string_JStr num_min_def num_eval)

subsection \<open>C9: the store \<open>Cubes\<close> is not validated\<close>

text \<open>
  Claim C9. On an initialised store \<open>validateEntity\<close> accepts every value for the store
  \<open>Cubes\<close> and leaves it as it is, and \<open>save\<close> into \<open>Cubes\<close> never fails with an error of
  the validation.
\<close>

theorem Cubes_never_validated:
  "(db s \<noteq> None \<longrightarrow> validateEntity rt s e ''Cubes'' = Inr e)
   \<and> (\<forall>msg. fst (save rt s e ''Cubes'') \<noteq> Inl (ValidationError msg))"
  by (auto simp: validateEntity_def save_def check_origin_def put_def bind_err_def extract_key_def
      split: sum.splits option.splits jsval.splits if_splits)

text \<open>
  A cube whose nested vertex colour is \<open>[999, -5, 0]\<close> is accepted, saved and read back.
\<close>

theorem Cubes_never_validated_witness:
  "db fresh_storage \<noteq> None
   \<and> validateEntity example_runtime fresh_storage bright_cube ''Cubes'' = Inr bright_cube
   \<and> fst (save example_runtime fresh_storage bright_cube ''Cubes'') = Inr ()
   \<and> get (snd (save example_runtime fresh_storage bright_cube ''Cubes'')) (JNum (Fin 1)) ''Cubes''
       = Inr bright_cube"
proof -
  have d: "db fresh_storage \<noteq> None" by (simp add: fresh_storage_def)
  have v: "validateEntity example_runtime fresh_storage bright_cube ''Cubes'' = Inr bright_cube"
    using Cubes_never_validated[of fresh_storage example_runtime bright_cube] d by blast
  have dbs: "db fresh_storage = Some (\<lambda>storeName. Map.empty)" by (simp add: fresh_storage_def)
  have p: "put (\<lambda>storeName. Map.empty) ''Cubes'' bright_cube
      = Inr ((\<lambda>storeName. Map.empty)(''Cubes'' := [JNum (Fin 1) \<mapsto> bright_cube]))"
    by (simp add: put_def key_path_def extract_key_def bright_cube_def bind_err_def)
  have s: "save example_runtime fresh_storage bright_cube ''Cubes''
      = (Inr (), fresh_storage\<lparr>db := Some ((\<lambda>storeName. Map.empty)
            (''Cubes'' := [JNum (Fin 1) \<mapsto> bright_cube]))\<rparr>)"
    by (simp add: save_def v check_origin_def dbs p)
  show ?thesis using d v by (simp add: s get_def key_path_def)
qed

subsection \<open>C10: \<open>BlendCornerByProximity\<close> always throws\<close>

text \<open>
  Claim C10. Every call of \<open>BlendCornerByProximity\<close> throws: a \<open>ReferenceError\<close> for
  \<open>distanceToSubject\<close>, or a \<open>TypeError\<close> before that when its third argument cannot be
  destructured or the weight in it cannot be compared with zero. And \<open>createBins\<close> fails
  whenever a vertex of its data resolves to this identifier: for every vertex of an item of
  the data that, for the depth \<open>findFarthestDepth\<close> computes, passes the inclusion test and
  carries the identifier \<open>BlendCornerByProximity\<close>, \<open>createBins\<close> ends with an exception.
\<close>

theorem corner_strategy_always_throws:
  "BlendCornerByProximity rt color1 color2 params
     = Inl (case get_prop params ''weight'' of
              Inl e \<Rightarrow> TypeError
            | Inr weight \<Rightarrow>
                (case to_number rt weight of
                   Inl e \<Rightarrow> TypeError
                 | Inr w \<Rightarrow> ReferenceError ''distanceToSubject''))
   \<and> (iterate data = Inr items \<and> item \<in> set items
        \<and> bind_err (item_vertices item) iterate = Inr vs \<and> vertex \<in> set vs
        \<and> (\<forall>maxDepth. findFarthestDepth rt data = Inr maxDepth
               \<longrightarrow> resolves_to rt maxDepth vertex ''BlendCornerByProximity'')
       \<longrightarrow> (\<exists>e. createBins rt p data isBackground = Inl e))"
proof (intro conjI impI)
  show "BlendCornerByProximity rt color1 color2 params
     = Inl (case get_prop params ''weight'' of
              Inl e \<Rightarrow> TypeError
            | Inr weight \<Rightarrow>
                (case to_number rt weight of
                   Inl e \<Rightarrow> TypeError
                 | Inr w \<Rightarrow> ReferenceError ''distanceToSubject''))"
    by (rule BlendCornerByProximity_throws)
next
  assume a: "iterate data = Inr items \<and> item \<in> set items
        \<and> bind_err (item_vertices item) iterate = Inr vs \<and> vertex \<in> set vs
        \<and> (\<forall>maxDepth. findFarthestDepth rt data = Inr maxDepth
               \<longrightarrow> resolves_to rt maxDepth vertex ''BlendCornerByProximity'')"
  show "\<exists>e. createBins rt p data isBackground = Inl e"
  proof (cases "findFarthestDepth rt data")
    case (Inl e)
    then show ?thesis by (simp add: createBins_def bind_err_def)
  next
    case (Inr maxDepth)
    with a have r: "resolves_to rt maxDepth vertex ''BlendCornerByProximity''" by blast
    from a have i: "item \<in> set items" and v: "bind_err (item_vertices item) iterate = Inr vs"
      and m: "vertex \<in> set vs" by blast+
    from process_items_fail[OF i v m process_vertex_corner[OF r], of isBackground "p\<lparr>bins := []\<rparr>"]
    show ?thesis using a by (simp add: createBins_def bind_err_def Inr)
  qed
qed

text \<open>
  A cube-shaped item with one vertex at the origin that names the strategy: the depth is
  \<open>0\<close>, the vertex is included, and \<open>createBins\<close> ends with the \<open>ReferenceError\<close>.
\<close>

theorem corner_strategy_always_throws_witness:
  "findFarthestDepth example_runtime (JArr [corner_item]) = Inr (Fin 0)
   \<and> resolves_to example_runtime (Fin 0) corner_vertex ''BlendCornerByProximity''
   \<and> (\<exists>e. createBins example_runtime (Painter None None) (JArr [corner_item]) False = Inl e)
   \<and> BlendCornerByProximity example_runtime dim_color bright_color
        (JObj [(''weight'', JNum (Fin (1 / 2))), (''ambient'', dim_color)])
       = Inl (ReferenceError ''distanceToSubject'')"
proof -
  have f: "findFarthestDepth example_runtime (JArr [corner_item]) = Inr (Fin 0)"
    by (simp add: findFarthestDepth_def corner_item_def corner_vertex_def item_vertices_def
        vertex_field_def or_else_def bind_err_def origin_3_def num_max_def to_number_JNum)
  have r: "resolves_to example_runtime (Fin 0) corner_vertex ''BlendCornerByProximity''"
    by (simp add: resolves_to_def vertex_xyz_def vertex_field_def vertex_blend_logic_def
        or_else_def bind_err_def corner_vertex_def origin_3_def nth_or_undefined_def
        to_number_JNum to_string_JStr num_eval)
  have v: "bind_err (item_vertices corner_item) iterate = Inr [corner_vertex]"
    by (simp add: item_vertices_def or_else_def bind_err_def corner_item_def corner_vertex_def)
  note inst = corner_strategy_always_throws[of example_runtime dim_color bright_color
      "JObj [(''weight'', JNum (Fin (1 / 2))), (''ambient'', dim_color)]"
      "JArr [corner_item]" "[corner_item]" corner_item "[corner_vertex]" corner_vertex
      "Painter None None" False]
  have "\<exists>e. createBins example_runtime (Painter None None) (JArr [corner_item]) False = Inl e"
    using inst f r v by simp
  moreover have "BlendCornerByProximity example_runtime dim_color bright_color
        (JObj [(''weight'', JNum (Fin (1 / 2))), (''ambient'', dim_color)])
       = Inl (ReferenceError ''distanceToSubject'')"
    using inst by (simp add: to_number_JNum)
  ultimately show ?thesis using f r by simp
qed

end
